theory Spec2Isabelle
  imports Main
begin

section \<open>JavaScript strings\<close>

text \<open>
  Strings are lists of characters. The string methods the sources call are written out
  here with the results JavaScript gives them. White space is the part of JavaScript's
  white space and line terminator set that an 8-bit character can hold: TAB, LF, VT, FF,
  CR, SPACE and NBSP.
\<close>

definition isWhiteSpace :: "char \<Rightarrow> bool" where
  "isWhiteSpace c \<longleftrightarrow>
     c \<in> set [CHR 0x09, CHR 0x0A, CHR 0x0B, CHR 0x0C, CHR 0x0D, CHR 0x20, CHR 0xA0]"

definition trim :: "string \<Rightarrow> string" where
  "trim s = rev (dropWhile isWhiteSpace (rev (dropWhile isWhiteSpace s)))"

definition startsWith :: "string \<Rightarrow> string \<Rightarrow> bool" where
  "startsWith s p \<longleftrightarrow> take (length p) s = p"

definition substring :: "string \<Rightarrow> nat \<Rightarrow> string" where
  "substring s n = drop n s"

fun indexOf :: "string \<Rightarrow> string \<Rightarrow> nat option" where
  "indexOf [] p = (if p = [] then Some 0 else None)"
| "indexOf (c # cs) p =
     (if startsWith (c # cs) p then Some 0 else map_option Suc (indexOf cs p))"

definition str_includes :: "string \<Rightarrow> string \<Rightarrow> bool" where
  "str_includes s p \<longleftrightarrow> indexOf s p \<noteq> None"

text \<open>
  \<open>s.replace(p, r)\<close> with a string pattern replaces the first occurrence only. The
  sources call it with the replacement \<open>''\<close>, which has no \<open>$\<close> pattern in it.
\<close>

definition replace :: "string \<Rightarrow> string \<Rightarrow> string \<Rightarrow> string" where
  "replace s p r =
     (case indexOf s p of
        None \<Rightarrow> s
      | Some i \<Rightarrow> take i s @ r @ drop (i + length p) s)"

text \<open>
  \<open>s.split(sep)\<close> with a string separator cuts at the leftmost occurrences of the
  separator, which do not overlap; the empty separator cuts between all characters.
\<close>

function split :: "string \<Rightarrow> string \<Rightarrow> string list" where
  "split [] sep = (if sep = [] then [] else [[]])"
| "split (c # cs) sep =
     (if sep = [] then map (\<lambda>x. [x]) (c # cs)
      else if startsWith (c # cs) sep then [] # split (drop (length sep) (c # cs)) sep
      else (case split cs sep of
              [] \<Rightarrow> [[c]]
            | piece # pieces \<Rightarrow> (c # piece) # pieces))"
  by pat_completeness auto
termination
  by (relation "measure (\<lambda>(s, sep). length s)") auto

text \<open>\<open>toLowerCase\<close> on 8-bit characters: A to Z, and the Latin-1 capitals but the
  multiplication sign.\<close>

definition lowerChar :: "char \<Rightarrow> char" where
  "lowerChar c =
     (let n = (of_char c :: nat)
      in if (65 \<le> n \<and> n \<le> 90) \<or> (192 \<le> n \<and> n \<le> 222 \<and> n \<noteq> 215)
         then char_of (n + 32) else c)"

definition toLowerCase :: "string \<Rightarrow> string" where
  "toLowerCase s = map lowerChar s"

section \<open>The processes, the file system and the terminal\<close>

text \<open>
  What a started process does. \<open>execa\<close> resolves with the standard output when the
  process exits with code 0. When it does not, \<open>execa\<close> rejects with an error that
  carries the standard error and a message, unless it was called with
  \<open>reject: false\<close>: then it resolves with the result all the same, its standard
  output included. \<open>NoSpawn\<close> is a call that rejects whatever the option says, the
  process having never been started.
\<close>

datatype proc =
    Succeeded string
  | Failed string string string
  | NoSpawn string

datatype err =
    ExecaError string string
  | FsError string

fun stderr_or_message :: "err \<Rightarrow> string" where
  "stderr_or_message (ExecaError stderr message) = (if stderr \<noteq> [] then stderr else message)"
| "stderr_or_message (FsError code) = code"

fun message_of :: "err \<Rightarrow> string" where
  "message_of (ExecaError stderr message) = message"
| "message_of (FsError code) = code"

fun stderr_includes :: "err \<Rightarrow> string \<Rightarrow> bool" where
  "stderr_includes (ExecaError stderr message) p = str_includes stderr p"
| "stderr_includes (FsError code) p = False"

fun isEnoent :: "err \<Rightarrow> bool" where
  "isEnoent (FsError code) = (code = ''ENOENT'')"
| "isEnoent (ExecaError stderr message) = False"

datatype stats = Directory | NotDirectory

text \<open>
  What the program does to the outside is a list of events, in the order they happen: a
  command started, a line printed (on either stream), a question asked, a directory
  removed. Looking at the file system (\<open>stat\<close>, \<open>realpath\<close>) leaves no event.
  What the outside answers may depend on all the events before.
\<close>

datatype event =
    Exec "string list"
  | Console string
  | Prompt string
  | Rm string

record world =
  w_exec :: "event list \<Rightarrow> string list \<Rightarrow> proc"
  w_stat :: "event list \<Rightarrow> string \<Rightarrow> err + stats"
  w_realpath :: "event list \<Rightarrow> string \<Rightarrow> string option"
  w_resolve :: "string list \<Rightarrow> string"
  w_url_hostname :: "string \<Rightarrow> string option"
  w_confirm :: "event list \<Rightarrow> string \<Rightarrow> bool option"
  w_choose :: "event list \<Rightarrow> string \<Rightarrow> nat option"
  w_choose_many :: "event list \<Rightarrow> string \<Rightarrow> nat list option"
  w_rm :: "event list \<Rightarrow> string \<Rightarrow> err option"
  w_isTTY :: bool

text \<open>
  The fields of a world are what the outside answers: \<open>w_exec\<close> is the process a
  command line starts, \<open>w_stat\<close> and \<open>w_realpath\<close> are \<open>fs.stat\<close> and
  \<open>fs.realpath\<close> (\<open>Inl\<close> and \<open>None\<close> when they throw), \<open>w_resolve\<close> is
  \<open>path.resolve\<close>, \<open>w_url_hostname\<close> is the host name \<open>new URL\<close> finds
  (\<open>None\<close> when it throws), \<open>w_confirm\<close>, \<open>w_choose\<close> and \<open>w_choose_many\<close>
  are what the user answers to the prompts (\<open>None\<close> when the prompt is cancelled; a
  choice is the position in the list shown), \<open>w_rm\<close> is the error \<open>fs.rm\<close> throws,
  if any, and \<open>w_isTTY\<close> is \<open>process.stdin.isTTY\<close>.
\<close>

text \<open>
  An asynchronous function returns a value, throws, or ends the process
  (\<open>process.exit\<close> does not throw: no \<open>catch\<close> sees it).
\<close>

datatype 'a res = Val 'a | Throw err | Halt nat

type_synonym 'a io = "event list \<Rightarrow> 'a res \<times> event list"

definition pure :: "'a \<Rightarrow> 'a io" where
  "pure x = (\<lambda>t. (Val x, t))"

definition throw :: "err \<Rightarrow> 'a io" where
  "throw e = (\<lambda>t. (Throw e, t))"

definition process_exit :: "nat \<Rightarrow> 'a io" where
  "process_exit code = (\<lambda>t. (Halt code, t))"

definition bind :: "'a io \<Rightarrow> ('a \<Rightarrow> 'b io) \<Rightarrow> 'b io" where
  "bind m f = (\<lambda>t. case m t of
                      (Val x, t') \<Rightarrow> f x t'
                    | (Throw e, t') \<Rightarrow> (Throw e, t')
                    | (Halt code, t') \<Rightarrow> (Halt code, t'))"

definition try_catch :: "'a io \<Rightarrow> (err \<Rightarrow> 'a io) \<Rightarrow> 'a io" where
  "try_catch m h = (\<lambda>t. case m t of
                           (Throw e, t') \<Rightarrow> h e t'
                         | r \<Rightarrow> r)"

definition console :: "string \<Rightarrow> unit io" where
  "console s = (\<lambda>t. (Val (), t @ [Console s]))"

definition execa :: "world \<Rightarrow> string list \<Rightarrow> string io" where
  "execa w c = (\<lambda>t. (case w_exec w t c of
                        Succeeded stdout \<Rightarrow> Val stdout
                      | Failed stdout stderr message \<Rightarrow> Throw (ExecaError stderr message)
                      | NoSpawn message \<Rightarrow> Throw (ExecaError [] message),
                      t @ [Exec c]))"

definition execa_no_reject :: "world \<Rightarrow> string list \<Rightarrow> string io" where
  "execa_no_reject w c = (\<lambda>t. (case w_exec w t c of
                        Succeeded stdout \<Rightarrow> Val stdout
                      | Failed stdout stderr message \<Rightarrow> Val stdout
                      | NoSpawn message \<Rightarrow> Throw (ExecaError [] message),
                      t @ [Exec c]))"

section \<open>The worktree list (utils/git.js)\<close>

record WorktreeInfo =
  path :: string
  head :: string
  branch :: "string option"
  detached :: bool
  locked :: bool
  prunable :: bool
  isMain :: bool
  bare :: bool
  lockReason :: "string option"
  pruneReason :: "string option"

definition newInfo :: "bool \<Rightarrow> WorktreeInfo" where
  "newInfo isFirstWorktree =
     \<lparr>path = [], head = [], branch = None, detached = False, locked = False,
      prunable = False, isMain = isFirstWorktree, bare = False,
      lockReason = None, pruneReason = None\<rparr>"

definition parseLine :: "WorktreeInfo \<Rightarrow> string \<Rightarrow> WorktreeInfo" where
  "parseLine info line =
     (if startsWith line ''worktree '' then
        info\<lparr>path := substring line (length ''worktree '')\<rparr>
      else if startsWith line ''HEAD '' then
        info\<lparr>head := substring line (length ''HEAD '')\<rparr>
      else if startsWith line ''branch '' then
        info\<lparr>branch := Some (replace (substring line (length ''branch '')) ''refs/heads/'' [])\<rparr>
      else if line = ''detached'' then info\<lparr>detached := True\<rparr>
      else if line = ''bare'' then info\<lparr>bare := True\<rparr>
      else if line = ''locked'' then info\<lparr>locked := True\<rparr>
      else if startsWith line ''locked '' then
        info\<lparr>locked := True, lockReason := Some (substring line (length ''locked ''))\<rparr>
      else if line = ''prunable'' then info\<lparr>prunable := True\<rparr>
      else if startsWith line ''prunable '' then
        info\<lparr>prunable := True, pruneReason := Some (substring line (length ''prunable ''))\<rparr>
      else info)"

definition parseBlock :: "bool \<Rightarrow> string \<Rightarrow> WorktreeInfo" where
  "parseBlock isFirstWorktree block =
     foldl parseLine (newInfo isFirstWorktree) (split block ''\<newline>'')"

text \<open>The loop over the blocks: a block without a path is not pushed, and the flag
  \<open>isFirstWorktree\<close> is cleared after every block, pushed or not.\<close>

fun parseBlocks :: "bool \<Rightarrow> string list \<Rightarrow> WorktreeInfo list" where
  "parseBlocks isFirstWorktree [] = []"
| "parseBlocks isFirstWorktree (block # blocks) =
     (let info = parseBlock isFirstWorktree block
      in (if path info \<noteq> [] then [info] else []) @ parseBlocks False blocks)"

definition blocksOf :: "string \<Rightarrow> string list" where
  "blocksOf stdout = filter (\<lambda>block. trim block \<noteq> []) (split stdout ''\<newline>\<newline>'')"

definition parseWorktreeList :: "string \<Rightarrow> WorktreeInfo list" where
  "parseWorktreeList stdout =
     (if trim stdout = [] then [] else parseBlocks True (blocksOf stdout))"

definition worktree_list_cmd :: "string \<Rightarrow> string list" where
  "worktree_list_cmd cwd = [''git'', ''-C'', cwd, ''worktree'', ''list'', ''--porcelain'']"

definition getWorktrees :: "world \<Rightarrow> string \<Rightarrow> WorktreeInfo list io" where
  "getWorktrees w cwd =
     try_catch
       (bind (execa w (worktree_list_cmd cwd)) (\<lambda>stdout. pure (parseWorktreeList stdout)))
       (\<lambda>error. bind (console (''Failed to list worktrees: '' @ stderr_or_message error))
                   (\<lambda>_. pure []))"

definition findWorktreeByBranch :: "world \<Rightarrow> string \<Rightarrow> string \<Rightarrow> WorktreeInfo option io" where
  "findWorktreeByBranch w b cwd =
     bind (getWorktrees w cwd) (\<lambda>worktrees. pure (find (\<lambda>wt. branch wt = Some b) worktrees))"

text \<open>The two \<open>try\<close> blocks of \<open>findWorktreeByPath\<close>: the real path, and the
  absolute path when \<open>realpath\<close> throws.\<close>

definition resolvedTarget :: "world \<Rightarrow> event list \<Rightarrow> string \<Rightarrow> string" where
  "resolvedTarget w t targetPath =
     (case w_realpath w t (w_resolve w [targetPath]) of
        Some real \<Rightarrow> real
      | None \<Rightarrow> w_resolve w [targetPath])"

definition wtRealPath :: "world \<Rightarrow> event list \<Rightarrow> string \<Rightarrow> string" where
  "wtRealPath w t p =
     (case w_realpath w t p of
        Some real \<Rightarrow> real
      | None \<Rightarrow> w_resolve w [p])"

definition findWorktreeByPath :: "world \<Rightarrow> string \<Rightarrow> string \<Rightarrow> WorktreeInfo option io" where
  "findWorktreeByPath w targetPath cwd =
     bind (getWorktrees w cwd)
       (\<lambda>worktrees t.
          (Val (find (\<lambda>wt. wtRealPath w t (path wt) = resolvedTarget w t targetPath) worktrees), t))"

section \<open>The upstream remote and the provider (utils/git.js)\<close>

text \<open>\<open>s.match(/^([^\/]+)\//)\<close>, group 1: the characters before the first slash,
  when there are some and a slash follows.\<close>

definition remoteOfRef :: "string \<Rightarrow> string option" where
  "remoteOfRef s =
     (let m = takeWhile (\<lambda>c. c \<noteq> CHR ''/'') s
      in if m \<noteq> [] \<and> length m < length s then Some m else None)"

definition trackingRemote :: "string \<Rightarrow> string option" where
  "trackingRemote stdout =
     (if stdout \<noteq> [] \<and> trim stdout \<noteq> [] then remoteOfRef (trim stdout) else None)"

text \<open>The revision asked for is the branch name, an at sign and \<open>{upstream}\<close>.\<close>

definition upstream_cmd :: "string \<Rightarrow> string \<Rightarrow> string list" where
  "upstream_cmd cwd b = [''git'', ''-C'', cwd, ''rev-parse'', ''--abbrev-ref'', b @ [CHR 0x40] @ ''{upstream}'']"

definition remote_cmd :: "string \<Rightarrow> string list" where
  "remote_cmd cwd = [''git'', ''-C'', cwd, ''remote'']"

definition pickRemote :: "string \<Rightarrow> string" where
  "pickRemote remotesOutput =
     (let remotes = filter (\<lambda>r. r \<noteq> []) (map trim (split remotesOutput ''\<newline>''))
      in case remotes of
           [] \<Rightarrow> ''origin''
         | first # _ \<Rightarrow>
             (case find (\<lambda>commonRemote. commonRemote \<in> set remotes) [''origin'', ''upstream''] of
                Some commonRemote \<Rightarrow> commonRemote
              | None \<Rightarrow> first))"

text \<open>
  The inner \<open>try\<close> of \<open>getUpstreamRemote\<close> returns from the function when it finds a
  tracking remote: \<open>Some\<close> is that return, \<open>None\<close> is falling out of the block. Both
  calls pass \<open>reject: false\<close>, and the \<open>catch\<close> that asks for \<open>master\<close> runs only
  when the first call throws.
\<close>

definition getUpstreamRemote :: "world \<Rightarrow> string \<Rightarrow> string io" where
  "getUpstreamRemote w cwd =
     try_catch
       (bind
          (try_catch
             (bind (execa_no_reject w (upstream_cmd cwd ''main''))
                (\<lambda>mainBranch. pure (trackingRemote mainBranch)))
             (\<lambda>_. try_catch
                    (bind (execa_no_reject w (upstream_cmd cwd ''master''))
                       (\<lambda>masterBranch. pure (trackingRemote masterBranch)))
                    (\<lambda>_. pure None)))
          (\<lambda>found. case found of
                      Some remote \<Rightarrow> pure remote
                    | None \<Rightarrow>
                        bind (execa w (remote_cmd cwd))
                          (\<lambda>remotesOutput. pure (pickRemote remotesOutput))))
       (\<lambda>error. pure ''origin'')"

text \<open>\<open>remoteUrl.match(/^git@([^:]+):/)\<close>, group 1.\<close>

definition scpHost :: "string \<Rightarrow> string option" where
  "scpHost remoteUrl =
     (let rest = drop (length ''git@'') remoteUrl;
          m = takeWhile (\<lambda>c. c \<noteq> CHR '':'') rest
      in if startsWith remoteUrl ''git@'' \<and> m \<noteq> [] \<and> length m < length rest
         then Some m else None)"

text \<open>\<open>remoteUrl.match(/^ssh:\/\/(?:[^@]+@)?([^/:]+)/)\<close>, group 1: the user part is
  taken when a host follows it, and left out otherwise.\<close>

definition hostChars :: "string \<Rightarrow> string" where
  "hostChars s = takeWhile (\<lambda>c. c \<noteq> CHR ''/'' \<and> c \<noteq> CHR '':'') s"

definition sshHost :: "string \<Rightarrow> string option" where
  "sshHost remoteUrl =
     (let rest = drop (length ''ssh://'') remoteUrl;
          user = takeWhile (\<lambda>c. c \<noteq> CHR ''@'') rest;
          after = drop (length user + 1) rest
      in if \<not> startsWith remoteUrl ''ssh://'' then None
         else if user \<noteq> [] \<and> length user < length rest \<and> hostChars after \<noteq> []
           then Some (hostChars after)
         else if hostChars rest \<noteq> [] then Some (hostChars rest)
         else None)"

definition getRemoteHostname :: "world \<Rightarrow> string \<Rightarrow> string option" where
  "getRemoteHostname w remoteUrl =
     (case (if startsWith remoteUrl ''git@'' then scpHost remoteUrl else None) of
        Some h \<Rightarrow> Some (toLowerCase h)
      | None \<Rightarrow>
         (case (if startsWith remoteUrl ''ssh://'' then sshHost remoteUrl else None) of
            Some h \<Rightarrow> Some (toLowerCase h)
          | None \<Rightarrow>
             (if startsWith remoteUrl ''http://'' \<or> startsWith remoteUrl ''https://''
              then map_option toLowerCase (w_url_hostname w remoteUrl)
              else None)))"

datatype provider = gh | glab

text \<open>\<open>/^gitlab\.[a-z.]+$/.test(hostname)\<close>.\<close>

definition isLowerOrDot :: "char \<Rightarrow> bool" where
  "isLowerOrDot c \<longleftrightarrow> c = CHR ''.'' \<or> (97 \<le> (of_char c :: nat) \<and> (of_char c :: nat) \<le> 122)"

definition gitlabPattern :: "string \<Rightarrow> bool" where
  "gitlabPattern hostname \<longleftrightarrow>
     startsWith hostname ''gitlab.'' \<and>
     drop (length ''gitlab.'') hostname \<noteq> [] \<and>
     list_all isLowerOrDot (drop (length ''gitlab.'') hostname)"

definition providerOfHost :: "string option \<Rightarrow> provider option" where
  "providerOfHost h =
     (case h of
        None \<Rightarrow> None
      | Some hostname \<Rightarrow>
          if hostname = [] then None
          else if hostname = ''github.com'' then Some gh
          else if hostname = ''gitlab.com'' \<or> gitlabPattern hostname then Some glab
          else None)"

definition get_url_cmd :: "string \<Rightarrow> string \<Rightarrow> string list" where
  "get_url_cmd cwd remote = [''git'', ''-C'', cwd, ''remote'', ''get-url'', remote]"

definition detectGitProvider :: "world \<Rightarrow> string \<Rightarrow> provider option io" where
  "detectGitProvider w cwd =
     try_catch
       (bind (getUpstreamRemote w cwd)
          (\<lambda>remote. bind (execa w (get_url_cmd cwd remote))
             (\<lambda>stdout. pure (providerOfHost (getRemoteHostname w (trim stdout))))))
       (\<lambda>error. pure None)"

section \<open>Stashing (utils/git.js)\<close>

definition status_cmd :: "string \<Rightarrow> string list" where
  "status_cmd cwd = [''git'', ''-C'', cwd, ''status'', ''--porcelain'']"

definition add_cmd :: "string \<Rightarrow> string list" where
  "add_cmd cwd = [''git'', ''-C'', cwd, ''add'', ''-A'']"

definition create_cmd :: "string \<Rightarrow> string option \<Rightarrow> string list" where
  "create_cmd cwd message =
     [''git'', ''-C'', cwd] @ [''stash'', ''create''] @
       (case message of None \<Rightarrow> [] | Some m \<Rightarrow> if m \<noteq> [] then [m] else [])"

definition reset_cmd :: "string \<Rightarrow> string list" where
  "reset_cmd cwd = [''git'', ''-C'', cwd, ''reset'', ''--hard'', ''HEAD'']"

definition clean_cmd :: "string \<Rightarrow> string list" where
  "clean_cmd cwd = [''git'', ''-C'', cwd, ''clean'', ''-fd'']"

definition stashChanges :: "world \<Rightarrow> string \<Rightarrow> string option \<Rightarrow> string option io" where
  "stashChanges w cwd message =
     try_catch
       (bind (execa w (status_cmd cwd)) (\<lambda>statusOutput.
          if trim statusOutput = [] then pure None
          else
            bind (execa w (add_cmd cwd)) (\<lambda>_.
            bind (execa w (create_cmd cwd message)) (\<lambda>stdout.
              let stashHash = trim stdout
              in if stashHash = [] then pure None
                 else
                   bind (execa w (reset_cmd cwd)) (\<lambda>_.
                   bind (execa w (clean_cmd cwd)) (\<lambda>_.
                   pure (Some stashHash)))))))
       (\<lambda>error. bind (console (''Failed to stash changes: '' @ stderr_or_message error))
                   (\<lambda>_. pure None))"

definition apply_cmd :: "string \<Rightarrow> string \<Rightarrow> string list" where
  "apply_cmd cwd stashHash = [''git'', ''-C'', cwd, ''stash'', ''apply'', stashHash]"

definition applyAndDropStash :: "world \<Rightarrow> string \<Rightarrow> string \<Rightarrow> bool io" where
  "applyAndDropStash w stashHash cwd =
     try_catch
       (bind (execa w (apply_cmd cwd stashHash)) (\<lambda>_. pure True))
       (\<lambda>error. bind (console (''Failed to apply stash: '' @ stderr_or_message error))
                   (\<lambda>_. pure False))"

section \<open>Prompts (utils/tui.js) and the file system calls\<close>

datatype selection = NoSelection | Single WorktreeInfo | Several "WorktreeInfo list"

definition promptOne :: "world \<Rightarrow> string \<Rightarrow> WorktreeInfo list \<Rightarrow> selection io" where
  "promptOne w message choices =
     (\<lambda>t. (Val (case w_choose w t message of
                   None \<Rightarrow> NoSelection
                 | Some i \<Rightarrow> if i < length choices then Single (choices ! i) else NoSelection),
            t @ [Prompt message]))"

definition promptMany :: "world \<Rightarrow> string \<Rightarrow> WorktreeInfo list \<Rightarrow> selection io" where
  "promptMany w message choices =
     (\<lambda>t. (Val (case w_choose_many w t message of
                   None \<Rightarrow> NoSelection
                 | Some picked \<Rightarrow>
                     (let chosen = map (\<lambda>i. choices ! i) (filter (\<lambda>i. i < length choices) picked)
                      in if chosen = [] then NoSelection else Several chosen)),
            t @ [Prompt message]))"

definition selectWorktree :: "world \<Rightarrow> string \<Rightarrow> bool \<Rightarrow> bool \<Rightarrow> selection io" where
  "selectWorktree w message excludeMain multiSelect =
     bind (getWorktrees w ''.'') (\<lambda>worktrees.
       if worktrees = [] then
         bind (console ''No worktrees found.'') (\<lambda>_. pure NoSelection)
       else
         (let filteredWorktrees =
                (if excludeMain then filter (\<lambda>wt. \<not> isMain wt) worktrees else worktrees)
          in if excludeMain \<and> filteredWorktrees = [] then
               bind (console ''No worktrees to select (only main worktree exists).'')
                 (\<lambda>_. pure NoSelection)
             else if multiSelect then promptMany w message filteredWorktrees
             else promptOne w message filteredWorktrees))"

definition confirm :: "world \<Rightarrow> string \<Rightarrow> bool io" where
  "confirm w message =
     (\<lambda>t. (Val (case w_confirm w t message of None \<Rightarrow> False | Some answer \<Rightarrow> answer),
            t @ [Prompt message]))"

definition stat :: "world \<Rightarrow> string \<Rightarrow> stats io" where
  "stat w p = (\<lambda>t. (case w_stat w t p of Inl e \<Rightarrow> Throw e | Inr s \<Rightarrow> Val s, t))"

definition rm :: "world \<Rightarrow> string \<Rightarrow> unit io" where
  "rm w p = (\<lambda>t. (case w_rm w t p of Some e \<Rightarrow> Throw e | None \<Rightarrow> Val (), t @ [Rm p]))"

text \<open>
  Modelled from the spec: \<open>withSpinner\<close> of utils/spinner.js, which is not among the
  sources. Section 1 of the spec counts terminal output among the plain I/O wrappers
  with no invariants of their own, so \<open>withSpinner\<close> runs its callback and hands on
  what the callback returns or throws.
\<close>

definition withSpinner :: "string \<Rightarrow> 'a io \<Rightarrow> string \<Rightarrow> 'a io" where
  "withSpinner text fn successText = fn"

definition dq :: string where
  "dq = [CHR 0x22]"

section \<open>Removing a worktree (commands/remove.js)\<close>

text \<open>The part of \<open>removeWorktreeHandler\<close> that sets \<open>targetWorktree\<close>.\<close>

definition remove_resolveTarget :: "world \<Rightarrow> string \<Rightarrow> WorktreeInfo io" where
  "remove_resolveTarget w pathOrBranch =
     (if pathOrBranch = [] then
        bind (selectWorktree w ''Select a worktree to remove'' True False) (\<lambda>selected.
          case selected of
            Single wt \<Rightarrow> pure wt
          | _ \<Rightarrow> bind (console ''No worktree selected.'') (\<lambda>_. process_exit 0))
      else
        bind (try_catch
                (bind (stat w pathOrBranch) (\<lambda>stats.
                   if stats = Directory then findWorktreeByPath w pathOrBranch ''.''
                   else pure None))
                (\<lambda>_. pure None)) (\<lambda>byPath.
        bind (case byPath of
                Some wt \<Rightarrow> pure (Some wt)
              | None \<Rightarrow> findWorktreeByBranch w pathOrBranch ''.'') (\<lambda>targetWorktree.
          case targetWorktree of
            Some wt \<Rightarrow> pure wt
          | None \<Rightarrow>
              bind (console (''Could not find a worktree for '' @ dq @ pathOrBranch @ dq @ ''.''))
                (\<lambda>_.
              bind (console ''Use 'wt list' to see existing worktrees, or run 'wt remove' without arguments to select interactively.'')
                (\<lambda>_. process_exit 1)))))"

definition remove_cmd :: "bool \<Rightarrow> string \<Rightarrow> string list" where
  "remove_cmd force targetPath =
     [''git'', ''worktree'', ''remove''] @ (if force then [''--force''] else []) @ [targetPath]"

definition lockedCheck :: "bool \<Rightarrow> WorktreeInfo \<Rightarrow> unit io" where
  "lockedCheck force targetWorktree =
     (if locked targetWorktree then
        bind (console (''  Warning: This worktree is locked'' @
                (case lockReason targetWorktree of
                   None \<Rightarrow> []
                 | Some reason \<Rightarrow> if reason \<noteq> [] then '': '' @ reason else [])))
          (\<lambda>_. if \<not> force then
                  bind (console ''Use --force to remove a locked worktree.'')
                    (\<lambda>_. process_exit 1)
                else pure ())
      else pure ())"

definition confirmCheck :: "world \<Rightarrow> bool \<Rightarrow> unit io" where
  "confirmCheck w force =
     (if \<not> force \<and> w_isTTY w then
        bind (confirm w ''Are you sure you want to remove this worktree?'') (\<lambda>confirmed.
          if \<not> confirmed then
            bind (console ''Removal cancelled.'') (\<lambda>_. process_exit 0)
          else pure ())
      else pure ())"

definition removeMetadata :: "world \<Rightarrow> bool \<Rightarrow> string \<Rightarrow> unit io" where
  "removeMetadata w force targetPath =
     try_catch
       (withSpinner (''Removing worktree: '' @ targetPath)
          (bind (execa w (remove_cmd force targetPath)) (\<lambda>_. pure ()))
          ''Git worktree metadata removed.'')
       (\<lambda>removeError.
          if stderr_includes removeError ''modified or untracked files'' \<and> \<not> force then
            bind (console ''Worktree contains modified or untracked files.'') (\<lambda>_.
            bind (confirm w ''Do you want to force remove this worktree (this may lose changes)?'')
              (\<lambda>forceRemove.
                if forceRemove then
                  withSpinner (''Force removing worktree: '' @ targetPath)
                    (bind (execa w [''git'', ''worktree'', ''remove'', ''--force'', targetPath])
                       (\<lambda>_. pure ()))
                    ''Git worktree metadata force removed.''
                else bind (console ''Removal cancelled.'') (\<lambda>_. process_exit 0)))
          else throw removeError)"

definition deleteFolder :: "world \<Rightarrow> string \<Rightarrow> unit io" where
  "deleteFolder w targetPath =
     try_catch
       (bind (stat w targetPath) (\<lambda>_.
        bind (rm w targetPath) (\<lambda>_.
        console (''Deleted folder '' @ targetPath))))
       (\<lambda>_. pure ())"

definition offerBranchDeletion :: "world \<Rightarrow> WorktreeInfo \<Rightarrow> unit io" where
  "offerBranchDeletion w targetWorktree =
     (case branch targetWorktree of
        None \<Rightarrow> pure ()
      | Some b \<Rightarrow>
         if b \<noteq> [] \<and> w_isTTY w then
            (bind (confirm w (''Delete local branch '' @ dq @ b @ dq @ '' as well?''))
              (\<lambda>deleteBranch.
                if deleteBranch then
                  try_catch
                    (withSpinner (''Deleting branch: '' @ b)
                       (bind (execa w [''git'', ''branch'', ''-d'', b]) (\<lambda>_. pure ()))
                       (''Branch '' @ dq @ b @ dq @ '' deleted.''))
                    (\<lambda>branchError.
                       if stderr_includes branchError ''not fully merged'' then
                         bind (confirm w (''Branch '' @ dq @ b @ dq @ '' is not fully merged. Force delete?''))
                           (\<lambda>forceDelete.
                             if forceDelete then
                               withSpinner (''Force deleting branch: '' @ b)
                                 (bind (execa w [''git'', ''branch'', ''-D'', b]) (\<lambda>_. pure ()))
                                 (''Branch '' @ dq @ b @ dq @ '' force deleted.'')
                             else pure ())
                       else console (''Could not delete branch '' @ dq @ b @ dq @ '': ''
                                       @ message_of branchError))
                else pure ()))
         else pure ())"

text \<open>The part of \<open>removeWorktreeHandler\<close> after the target is set.\<close>

definition remove_target :: "world \<Rightarrow> bool \<Rightarrow> WorktreeInfo \<Rightarrow> unit io" where
  "remove_target w force targetWorktree =
     (let targetPath = path targetWorktree
      in if isMain targetWorktree then
           bind (console ''Cannot remove the main worktree.'') (\<lambda>_. process_exit 1)
         else
           bind (console ''Worktree to remove:'') (\<lambda>_.
           bind (case branch targetWorktree of
                   None \<Rightarrow> pure ()
                 | Some b \<Rightarrow> if b \<noteq> [] then console (''  Branch: '' @ b) else pure ())
             (\<lambda>_.
           bind (console (''  Path: '' @ targetPath)) (\<lambda>_.
           bind (lockedCheck force targetWorktree) (\<lambda>_.
           bind (confirmCheck w force) (\<lambda>_.
           bind (removeMetadata w force targetPath) (\<lambda>_.
           bind (deleteFolder w targetPath) (\<lambda>_.
           bind (console ''Worktree removed successfully!'') (\<lambda>_.
           offerBranchDeletion w targetWorktree)))))))))"

definition inside_work_tree_cmd :: "string list" where
  "inside_work_tree_cmd = [''git'', ''rev-parse'', ''--is-inside-work-tree'']"

definition removeWorktreeHandler :: "world \<Rightarrow> string \<Rightarrow> bool \<Rightarrow> unit io" where
  "removeWorktreeHandler w pathOrBranch force =
     try_catch
       (bind (execa w inside_work_tree_cmd) (\<lambda>_.
        bind (remove_resolveTarget w pathOrBranch) (\<lambda>targetWorktree.
        remove_target w force targetWorktree)))
       (\<lambda>error. bind (console (''Failed to remove worktree: '' @ message_of error))
                   (\<lambda>_. process_exit 1))"

section \<open>Resolving the target in the cd and open handlers\<close>

text \<open>The ad-hoc record both handlers build for a directory that holds \<open>.git\<close>.\<close>

definition adHocRecord :: "string \<Rightarrow> WorktreeInfo" where
  "adHocRecord p =
     \<lparr>path = p, head = [], branch = None, detached = False, locked = False,
      prunable = False, isMain = False, bare = False, lockReason = None, pruneReason = None\<rparr>"

text \<open>The part of \<open>cdWorktreeHandler\<close> that sets \<open>targetWorktree\<close>; what it throws goes
  to the handler's \<open>catch\<close>.\<close>

definition cd_resolveTarget :: "world \<Rightarrow> string \<Rightarrow> WorktreeInfo io" where
  "cd_resolveTarget w pathOrBranch =
     (if pathOrBranch = [] then
        bind (selectWorktree w ''Select a worktree to cd into'' False False) (\<lambda>selected.
          case selected of
            Single wt \<Rightarrow> pure wt
          | _ \<Rightarrow> bind (console ''No worktree selected.'') (\<lambda>_. process_exit 0))
      else
        bind (try_catch
                (bind (stat w pathOrBranch) (\<lambda>stats. pure (Some stats)))
                (\<lambda>e. if \<not> isEnoent e then throw e else pure None)) (\<lambda>pathStats.
        bind (case pathStats of
                None \<Rightarrow> pure None
              | Some stats \<Rightarrow>
                  if stats = Directory then
                    bind (findWorktreeByPath w pathOrBranch ''.'') (\<lambda>found.
                      case found of
                        Some wt \<Rightarrow> pure (Some wt)
                      | None \<Rightarrow>
                          try_catch
                            (bind (stat w (w_resolve w [pathOrBranch, ''.git''])) (\<lambda>_.
                               pure (Some (adHocRecord (w_resolve w [pathOrBranch])))))
                            (\<lambda>_. bind (console (''The path '' @ dq @ pathOrBranch @ dq
                                                 @ '' exists but is not a git worktree.''))
                                    (\<lambda>_. process_exit 1)))
                  else
                    bind (console (''The path '' @ dq @ pathOrBranch @ dq @ '' is not a directory.''))
                      (\<lambda>_. process_exit 1)) (\<lambda>byPath.
          case byPath of
            Some wt \<Rightarrow> pure wt
          | None \<Rightarrow>
              bind (findWorktreeByBranch w pathOrBranch ''.'') (\<lambda>found.
                case found of
                  Some wt \<Rightarrow> pure wt
                | None \<Rightarrow>
                    bind (console (''Could not find a worktree for branch '' @ dq @ pathOrBranch
                                    @ dq @ ''.'')) (\<lambda>_.
                    bind (console ''Use 'wt list' to see existing worktrees, or run 'wt cd' without arguments to select interactively.'')
                      (\<lambda>_. process_exit 1))))))"

text \<open>The same part of \<open>openWorktreeHandler\<close> (commands/open.js).\<close>

definition open_resolveTarget :: "world \<Rightarrow> string \<Rightarrow> WorktreeInfo io" where
  "open_resolveTarget w pathOrBranch =
     (if pathOrBranch = [] then
        bind (selectWorktree w ''Select a worktree to open'' False False) (\<lambda>selected.
          case selected of
            Single wt \<Rightarrow> pure wt
          | _ \<Rightarrow> bind (console ''No worktree selected.'') (\<lambda>_. process_exit 0))
      else
        bind (try_catch
                (bind (stat w pathOrBranch) (\<lambda>stats. pure (Some stats)))
                (\<lambda>e. if \<not> isEnoent e then throw e else pure None)) (\<lambda>pathStats.
        bind (case pathStats of
                None \<Rightarrow> pure None
              | Some stats \<Rightarrow>
                  if stats = Directory then
                    bind (findWorktreeByPath w pathOrBranch ''.'') (\<lambda>found.
                      case found of
                        Some wt \<Rightarrow> pure (Some wt)
                      | None \<Rightarrow>
                          try_catch
                            (bind (stat w (w_resolve w [pathOrBranch, ''.git''])) (\<lambda>_.
                               pure (Some (adHocRecord (w_resolve w [pathOrBranch])))))
                            (\<lambda>_. bind (console (''The path '' @ dq @ pathOrBranch @ dq
                                                 @ '' exists but is not a git worktree.''))
                                    (\<lambda>_. process_exit 1)))
                  else
                    bind (console (''The path '' @ dq @ pathOrBranch @ dq @ '' is not a directory.''))
                      (\<lambda>_. process_exit 1)) (\<lambda>byPath.
          case byPath of
            Some wt \<Rightarrow> pure wt
          | None \<Rightarrow>
              bind (findWorktreeByBranch w pathOrBranch ''.'') (\<lambda>found.
                case found of
                  Some wt \<Rightarrow> pure wt
                | None \<Rightarrow>
                    bind (console (''Could not find a worktree for branch '' @ dq @ pathOrBranch
                                    @ dq @ ''.'')) (\<lambda>_.
                    bind (console ''Use 'wt list' to see existing worktrees, or run 'wt open' without arguments to select interactively.'')
                      (\<lambda>_. process_exit 1))))))"

section \<open>Observations on a run\<close>

text \<open>The command lines among the events, in order.\<close>

fun commands :: "event list \<Rightarrow> string list list" where
  "commands [] = []"
| "commands (Exec c # evs) = c # commands evs"
| "commands (_ # evs) = commands evs"

definition issued :: "event list \<Rightarrow> string list \<Rightarrow> bool" where
  "issued evs c \<longleftrightarrow> c \<in> set (commands evs)"

text \<open>The error \<open>execa\<close> rejects with, without \<open>reject: false\<close>.\<close>

fun rejection :: "proc \<Rightarrow> err option" where
  "rejection (Succeeded stdout) = None"
| "rejection (Failed stdout stderr message) = Some (ExecaError stderr message)"
| "rejection (NoSpawn message) = Some (ExecaError [] message)"

text \<open>The worktree list query has failed: the command did not succeed, or printed
  nothing but white space.\<close>

definition query_failed :: "proc \<Rightarrow> bool" where
  "query_failed p =
     (case p of
        Succeeded stdout \<Rightarrow> trim stdout = []
      | Failed stdout stderr message \<Rightarrow> True
      | NoSpawn message \<Rightarrow> True)"

text \<open>
  The hash the create step of \<open>stashChanges\<close> hands back when the function is called
  after the events \<open>t\<close>: \<open>None\<close> when the status is blank, when a step up to the
  create step fails, and when the create step prints no hash.
\<close>

definition createdHash :: "world \<Rightarrow> string \<Rightarrow> string option \<Rightarrow> event list \<Rightarrow> string option" where
  "createdHash w cwd message t =
     (case w_exec w t (status_cmd cwd) of
        Succeeded statusOutput \<Rightarrow>
          if trim statusOutput = [] then None
          else (case w_exec w (t @ [Exec (status_cmd cwd)]) (add_cmd cwd) of
                  Succeeded _ \<Rightarrow>
                    (case w_exec w (t @ [Exec (status_cmd cwd), Exec (add_cmd cwd)])
                            (create_cmd cwd message) of
                       Succeeded stdout \<Rightarrow> if trim stdout = [] then None else Some (trim stdout)
                     | _ \<Rightarrow> None)
                | _ \<Rightarrow> None)
      | _ \<Rightarrow> None)"

text \<open>The events a call of \<open>stashChanges\<close> adds.\<close>

definition stashEvents :: "world \<Rightarrow> string \<Rightarrow> string option \<Rightarrow> event list \<Rightarrow> event list" where
  "stashEvents w cwd message t = drop (length t) (snd (stashChanges w cwd message t))"

section \<open>Concrete repositories\<close>

text \<open>\<open>path.resolve\<close> on the paths the concrete repositories use: an absolute path
  without dots and without a slash at its end, followed by a relative name.\<close>

definition resolve_abs :: "string list \<Rightarrow> string" where
  "resolve_abs ps = (case ps of [] \<Rightarrow> ''/'' | [p] \<Rightarrow> p | p # q # _ \<Rightarrow> p @ ''/'' @ q)"

text \<open>Outside of any repository: every command fails, no path exists, nobody answers.\<close>

definition no_repo :: world where
  "no_repo =
     \<lparr>w_exec = (\<lambda>t c. Failed [] ''fatal: not a git repository'' ''Command failed with exit code 128''),
      w_stat = (\<lambda>t p. Inl (FsError ''ENOENT'')),
      w_realpath = (\<lambda>t p. None),
      w_resolve = resolve_abs,
      w_url_hostname = (\<lambda>u. None),
      w_confirm = (\<lambda>t m. None),
      w_choose = (\<lambda>t m. None),
      w_choose_many = (\<lambda>t m. None),
      w_rm = (\<lambda>t p. None),
      w_isTTY = False\<rparr>"

definition git_table :: "(string list \<times> proc) list \<Rightarrow> world" where
  "git_table table =
     no_repo\<lparr>w_exec := (\<lambda>t c. case map_of table c of Some p \<Rightarrow> p | None \<Rightarrow> w_exec no_repo t c)\<rparr>"

definition git_prints :: "string list \<Rightarrow> string \<Rightarrow> world" where
  "git_prints c stdout = git_table [(c, Succeeded stdout)]"

definition porcelain_two :: string where
  "porcelain_two = ''worktree /repo\<newline>HEAD 1111\<newline>branch refs/heads/main\<newline>\<newline>worktree /repo-feature\<newline>HEAD 2222\<newline>branch refs/heads/feature\<newline>''"



definition rec_main :: WorktreeInfo where
  "rec_main = \<lparr>path = ''/repo'', head = ''1111'', branch = Some ''main'', detached = False,
     locked = False, prunable = False, isMain = True, bare = False, lockReason = None,
     pruneReason = None\<rparr>"

definition rec_feature :: WorktreeInfo where
  "rec_feature = \<lparr>path = ''/repo-feature'', head = ''2222'', branch = Some ''feature'',
     detached = False, locked = False, prunable = False, isMain = False, bare = False,
     lockReason = None, pruneReason = None\<rparr>"

text \<open>A work tree with one modified file: what the create step prints and what the
  clean step does are left open.\<close>

definition dirty_repo :: "string \<Rightarrow> proc \<Rightarrow> world" where
  "dirty_repo created cleaned =
     git_table
       [(status_cmd ''.'', Succeeded '' M src/index.ts''),
        (add_cmd ''.'', Succeeded []),
        (create_cmd ''.'' None, Succeeded created),
        (reset_cmd ''.'', Succeeded ''HEAD is now at 1111 init''),
        (clean_cmd ''.'', cleaned)]"

definition clean_repo :: world where
  "clean_repo = git_table [(status_cmd ''.'', Succeeded [])]"

definition clean_denied :: proc where
  "clean_denied = Failed [] ''warning: failed to remove build/: Permission denied'' ''Command failed with exit code 1''"

definition stash_repo :: world where
  "stash_repo = git_table [(apply_cmd ''.'' ''3f2a9c1'', Succeeded ''On branch main'')]"

text \<open>A world with the given files (what \<open>stat\<close> finds) and real paths.\<close>

definition with_fs :: "world \<Rightarrow> (string \<times> stats) list \<Rightarrow> (string \<times> string) list \<Rightarrow> world" where
  "with_fs w files links =
     w\<lparr>w_stat := (\<lambda>t p. case map_of files p of Some s \<Rightarrow> Inr s | None \<Rightarrow> Inl (FsError ''ENOENT'')),
       w_realpath := (\<lambda>t p. map_of links p)\<rparr>"

text \<open>The main work tree and one linked work tree, as \<open>git worktree list\<close> prints
  them in \<open>porcelain_two\<close>.\<close>

definition main_repo :: world where
  "main_repo =
     git_table [(inside_work_tree_cmd, Succeeded ''true''),
                (worktree_list_cmd ''.'', Succeeded porcelain_two)]"

text \<open>
  Two linked work trees under \<open>/var\<close>, which is a symbolic link to \<open>/private/var\<close>:
  the list names the first by the linked path and the second by the real one.
\<close>

definition porcelain_links :: string where
  "porcelain_links = ''worktree /repo\<newline>HEAD 1111\<newline>branch refs/heads/main\<newline>\<newline>worktree /var/wt/a\<newline>HEAD 2222\<newline>branch refs/heads/a\<newline>\<newline>worktree /private/var/wt/b\<newline>HEAD 3333\<newline>branch refs/heads/b''"

definition rec_a :: WorktreeInfo where
  "rec_a = \<lparr>path = ''/var/wt/a'', head = ''2222'', branch = Some ''a'',
     detached = False, locked = False, prunable = False, isMain = False, bare = False,
     lockReason = None, pruneReason = None\<rparr>"

definition rec_b :: WorktreeInfo where
  "rec_b = \<lparr>path = ''/private/var/wt/b'', head = ''3333'', branch = Some ''b'',
     detached = False, locked = False, prunable = False, isMain = False, bare = False,
     lockReason = None, pruneReason = None\<rparr>"

definition symlinked_repo :: world where
  "symlinked_repo =
     with_fs (git_table [(worktree_list_cmd ''.'', Succeeded porcelain_links)])
       [(''/repo'', Directory), (''/var/wt/a'', Directory), (''/private/var/wt/a'', Directory),
        (''/var/wt/b'', Directory), (''/private/var/wt/b'', Directory)]
       [(''/repo'', ''/repo''),
        (''/var/wt/a'', ''/private/var/wt/a''), (''/private/var/wt/a'', ''/private/var/wt/a''),
        (''/var/wt/b'', ''/private/var/wt/b''), (''/private/var/wt/b'', ''/private/var/wt/b'')]"

text \<open>
  A repository whose branch \<open>main\<close> tracks nothing, whose branch \<open>master\<close> tracks
  \<open>upstream/master\<close>, and whose remotes are \<open>origin\<close> and \<open>upstream\<close>.
\<close>

definition fork_repo :: world where
  "fork_repo =
     git_table
       [(upstream_cmd ''.'' ''main'',
           Failed [] ''fatal: no upstream configured for branch main'' ''Command failed with exit code 128''),
        (upstream_cmd ''.'' ''master'', Succeeded ''upstream/master''),
        (remote_cmd ''.'', Succeeded ''origin\<newline>upstream'')]"

text \<open>A repository whose remote \<open>origin\<close> is a self-hosted GitLab.\<close>

definition selfhosted_repo :: world where
  "selfhosted_repo =
     git_table
       [(upstream_cmd ''.'' ''main'', Succeeded ''origin/main''),
        (get_url_cmd ''.'' ''origin'', Succeeded ''git@gitlab.my-company.com:team/repo.git'')]"

text \<open>
  A bare repository, and beside it a directory \<open>/srv/checkout\<close> that holds a \<open>.git\<close>
  file and that the worktree list does not name.
\<close>

definition bare_layout :: world where
  "bare_layout =
     with_fs (git_table [(inside_work_tree_cmd, Succeeded ''true''),
                         (worktree_list_cmd ''.'', Succeeded ''worktree /srv/repo.git\<newline>bare\<newline>'')])
       [(''/srv/repo.git'', Directory), (''/srv/checkout'', Directory),
        (''/srv/checkout/.git'', NotDirectory)]
       [(''/srv/repo.git'', ''/srv/repo.git''), (''/srv/checkout'', ''/srv/checkout'')]"

definition rec_bare :: WorktreeInfo where
  "rec_bare = \<lparr>path = ''/srv/repo.git'', head = [], branch = None,
     detached = False, locked = False, prunable = False, isMain = True, bare = True,
     lockReason = None, pruneReason = None\<rparr>"

section \<open>Classes of events\<close>

text \<open>The events that change nothing: the two queries the removal starts with, what is
  printed and what is asked.\<close>

fun readOnly :: "event \<Rightarrow> bool" where
  "readOnly (Exec c) = (c = inside_work_tree_cmd \<or> c = worktree_list_cmd ''.'')"
| "readOnly (Console s) = True"
| "readOnly (Prompt s) = True"
| "readOnly (Rm p) = False"

text \<open>Every event a computation adds is of the class \<open>P\<close>.\<close>

definition emits :: "(event \<Rightarrow> bool) \<Rightarrow> 'a io \<Rightarrow> bool" where
  "emits P m \<longleftrightarrow> (\<forall>t. \<exists>new. snd (m t) = t @ new \<and> list_all P new)"

section \<open>Running the primitives\<close>

named_theorems run \<open>the primitives, applied to the events so far\<close>

lemma execa_run [run]:
  "execa w c t =
     (case w_exec w t c of
        Succeeded stdout \<Rightarrow> Val stdout
      | Failed stdout stderr message \<Rightarrow> Throw (ExecaError stderr message)
      | NoSpawn message \<Rightarrow> Throw (ExecaError [] message), t @ [Exec c])"
  by (simp add: execa_def)

lemma execa_rejected:
  "rejection (w_exec w t c) = Some e \<Longrightarrow> execa w c t = (Throw e, t @ [Exec c])"
  by (cases "w_exec w t c") (simp_all add: execa_def)

lemma execa_resolved:
  "w_exec w t c = Succeeded out \<Longrightarrow> execa w c t = (Val out, t @ [Exec c])"
  by (simp add: execa_def)

lemma bind_console: "bind (console s) f t = f () (t @ [Console s])"
  by (simp add: bind_def console_def)

lemma bind_rejected:
  "rejection (w_exec w t c) = Some e \<Longrightarrow> bind (execa w c) f t = (Throw e, t @ [Exec c])"
  by (simp add: bind_def execa_rejected)

lemma bind_resolved:
  "w_exec w t c = Succeeded out \<Longrightarrow> bind (execa w c) f t = f out (t @ [Exec c])"
  by (simp add: bind_def execa_resolved)

lemma bind_Val: "m t = (Val x, t') \<Longrightarrow> bind m f t = f x t'"
  by (simp add: bind_def)

lemma proc_cases:
  obtains (resolved) out where "p = Succeeded out" | (rejected) e where "rejection p = Some e"
  by (cases p) auto

lemma commands_append: "commands (xs @ ys) = commands xs @ commands ys"
  by (induction xs rule: commands.induct) simp_all

lemma exec_git_table:
  "w_exec (git_table table) t c = (case map_of table c of Some p \<Rightarrow> p | None \<Rightarrow> w_exec no_repo t c)"
  by (simp add: git_table_def)

lemma trim_Nil: "trim [] = []"
  by (simp add: trim_def)

lemma exec_git_prints: "w_exec (git_prints c out) t c = Succeeded out"
  by (simp add: git_prints_def exec_git_table)




lemma pure_run [run]: "pure x t = (Val x, t)"
  by (simp add: pure_def)

lemma throw_run [run]: "throw e t = (Throw e, t)"
  by (simp add: throw_def)

lemma process_exit_run [run]: "process_exit n t = (Halt n, t)"
  by (simp add: process_exit_def)

lemma console_run [run]: "console s t = (Val (), t @ [Console s])"
  by (simp add: console_def)

lemma bind_run [run]:
  "bind m f t = (case m t of
                   (Val x, t') \<Rightarrow> f x t'
                 | (Throw e, t') \<Rightarrow> (Throw e, t')
                 | (Halt n, t') \<Rightarrow> (Halt n, t'))"
  by (simp add: bind_def)

lemma try_catch_run [run]:
  "try_catch m h t = (case m t of (Throw e, t') \<Rightarrow> h e t' | r \<Rightarrow> r)"
  by (simp add: try_catch_def)

lemma execa_no_reject_run [run]:
  "execa_no_reject w c t =
     (case w_exec w t c of
        Succeeded stdout \<Rightarrow> Val stdout
      | Failed stdout stderr message \<Rightarrow> Val stdout
      | NoSpawn message \<Rightarrow> Throw (ExecaError [] message), t @ [Exec c])"
  by (simp add: execa_no_reject_def)

lemma stat_run [run]:
  "stat w p t = (case w_stat w t p of Inl e \<Rightarrow> Throw e | Inr s \<Rightarrow> Val s, t)"
  by (simp add: stat_def)

lemma confirm_run [run]:
  "confirm w message t =
     (Val (case w_confirm w t message of None \<Rightarrow> False | Some answer \<Rightarrow> answer), t @ [Prompt message])"
  by (simp add: confirm_def)

lemma rm_run [run]:
  "rm w p t = (case w_rm w t p of Some e \<Rightarrow> Throw e | None \<Rightarrow> Val (), t @ [Rm p])"
  by (simp add: rm_def)

lemma emitsI: "(\<And>t. \<exists>new. snd (m t) = t @ new \<and> list_all P new) \<Longrightarrow> emits P m"
  by (simp add: emits_def)

lemma emitsD: "emits P m \<Longrightarrow> m t = (r, t') \<Longrightarrow> \<exists>new. t' = t @ new \<and> list_all P new"
  by (auto simp: emits_def dest: spec [where x = t])

lemma emits_pure [simp]: "emits P (pure x)"
  by (simp add: emits_def pure_def)

lemma emits_throw [simp]: "emits P (throw e)"
  by (simp add: emits_def throw_def)

lemma emits_process_exit [simp]: "emits P (process_exit n)"
  by (simp add: emits_def process_exit_def)

lemma emits_console: "P (Console s) \<Longrightarrow> emits P (console s)"
  by (simp add: emits_def console_def)

lemma emits_execa: "P (Exec c) \<Longrightarrow> emits P (execa w c)"
  by (simp add: emits_def execa_def)

lemma emits_stat [simp]: "emits P (stat w p)"
  by (simp add: emits_def stat_def)

lemma emits_bind: 
  assumes "emits P m" and "\<And>x. emits P (f x)"
  shows "emits P (bind m f)"
proof (rule emitsI)
  fix t
  obtain r t1 where m: "m t = (r, t1)" by (cases "m t")
  from emitsD [OF assms(1) m] obtain n1 where t1: "t1 = t @ n1" and p1: "list_all P n1" by blast
  show "\<exists>new. snd (bind m f t) = t @ new \<and> list_all P new"
  proof (cases r)
    case (Val x)
    obtain r2 t2 where f: "f x t1 = (r2, t2)" by (cases "f x t1")
    from emitsD [OF assms(2) f] obtain n2 where "t2 = t1 @ n2" and "list_all P n2" by blast
    with t1 p1 have "t2 = t @ (n1 @ n2) \<and> list_all P (n1 @ n2)" by simp
    with m Val f show ?thesis by (simp add: bind_def)
  next
    case (Throw e)
    with m t1 p1 show ?thesis by (simp add: bind_def)
  next
    case (Halt n)
    with m t1 p1 show ?thesis by (simp add: bind_def)
  qed
qed

lemma emits_try_catch: 
  assumes "emits P m" and "\<And>e. emits P (h e)"
  shows "emits P (try_catch m h)"
proof (rule emitsI)
  fix t
  obtain r t1 where m: "m t = (r, t1)" by (cases "m t")
  from emitsD [OF assms(1) m] obtain n1 where t1: "t1 = t @ n1" and p1: "list_all P n1" by blast
  show "\<exists>new. snd (try_catch m h t) = t @ new \<and> list_all P new"
  proof (cases r)
    case (Throw e)
    obtain r2 t2 where f: "h e t1 = (r2, t2)" by (cases "h e t1")
    from emitsD [OF assms(2) f] obtain n2 where "t2 = t1 @ n2" and "list_all P n2" by blast
    with t1 p1 have "t2 = t @ (n1 @ n2) \<and> list_all P (n1 @ n2)" by simp
    with m Throw f show ?thesis by (simp add: try_catch_def)
  next
    case (Val x)
    with m t1 p1 show ?thesis by (simp add: try_catch_def)
  next
    case (Halt n)
    with m t1 p1 show ?thesis by (simp add: try_catch_def)
  qed
qed

section \<open>The worktree list\<close>

lemma getWorktrees_run:
  "getWorktrees w cwd t =
     (case w_exec w t (worktree_list_cmd cwd) of
        Succeeded stdout \<Rightarrow> (Val (parseWorktreeList stdout), t @ [Exec (worktree_list_cmd cwd)])
      | Failed stdout stderr message \<Rightarrow>
          (Val [], t @ [Exec (worktree_list_cmd cwd),
                        Console (''Failed to list worktrees: '' @ stderr_or_message (ExecaError stderr message))])
      | NoSpawn message \<Rightarrow>
          (Val [], t @ [Exec (worktree_list_cmd cwd),
                        Console (''Failed to list worktrees: '' @ stderr_or_message (ExecaError [] message))]))"
  by (simp add: getWorktrees_def try_catch_def bind_def execa_def pure_def console_def
           split: proc.splits)







lemma parse_two: "parseWorktreeList porcelain_two = [rec_main, rec_feature]"
  by code_simp




text \<open>
  Claim C9. When the worktree list query fails (the command does not succeed, or prints
  nothing but white space), \<open>getWorktrees\<close> returns the empty list; and whatever the
  query does, \<open>getWorktrees\<close> returns a list: it neither throws nor ends the process.
\<close>

theorem getWorktrees_failure_empty:
  "(\<exists>ws. fst (getWorktrees w cwd t) = Val ws) \<and>
   (query_failed (w_exec w t (worktree_list_cmd cwd)) \<longrightarrow> fst (getWorktrees w cwd t) = Val [])"
  by (simp add: getWorktrees_run query_failed_def parseWorktreeList_def split: proc.splits)

theorem getWorktrees_failure_empty_witness:
  "query_failed (w_exec no_repo [] (worktree_list_cmd ''.'')) \<and>
   fst (getWorktrees no_repo ''.'' []) = Val [] \<and>
   query_failed (w_exec (git_prints (worktree_list_cmd ''.'') '' \<newline>'') [] (worktree_list_cmd ''.'')) \<and>
   fst (getWorktrees (git_prints (worktree_list_cmd ''.'') '' \<newline>'') ''.'' []) = Val []"
proof -
  have a: "query_failed (w_exec no_repo [] (worktree_list_cmd ''.''))"
    by (simp add: query_failed_def no_repo_def)
  have b: "query_failed (w_exec (git_prints (worktree_list_cmd ''.'') '' \<newline>'') [] (worktree_list_cmd ''.''))"
    by (simp add: query_failed_def exec_git_prints trim_def isWhiteSpace_def)
  from a b getWorktrees_failure_empty [of no_repo "''.''" "[]"]
    getWorktrees_failure_empty [of "git_prints (worktree_list_cmd ''.'') '' \<newline>''" "''.''" "[]"]
  show ?thesis by blast
qed



lemma find_distinct_key:
  "distinct (map f xs) \<Longrightarrow> x \<in> set xs \<Longrightarrow> find (\<lambda>y. f y = f x) xs = Some x"
  by (induction xs) (auto simp: image_iff)

lemma findWorktreeByPath_run:
  "getWorktrees w cwd t = (Val worktrees, t1) \<Longrightarrow>
   findWorktreeByPath w token cwd t =
     (Val (find (\<lambda>wt. wtRealPath w t1 (path wt) = resolvedTarget w t1 token) worktrees), t1)"
  by (simp add: findWorktreeByPath_def bind_def)

text \<open>
  Claim C7. \<open>findWorktreeByPath\<close> compares real paths (the real path where
  \<open>realpath\<close> succeeds, the absolute path where it throws, as the code computes them for
  the token and for every record). The record it returns is a record of the list whose
  real path is the token's; it returns nothing exactly when no record has the token's real
  path; where the records have distinct real paths, the token resolves to a record if
  and only if the two real paths are equal; and two tokens with the same real path
  resolve to the same record.
\<close>

theorem findWorktreeByPath_real_path:
  assumes "getWorktrees w cwd t = (Val worktrees, t1)"
  shows "(\<forall>wt. fst (findWorktreeByPath w token cwd t) = Val (Some wt) \<longrightarrow>
            wt \<in> set worktrees \<and> wtRealPath w t1 (path wt) = resolvedTarget w t1 token) \<and>
         (fst (findWorktreeByPath w token cwd t) = Val None \<longleftrightarrow>
            list_all (\<lambda>wt. wtRealPath w t1 (path wt) \<noteq> resolvedTarget w t1 token) worktrees) \<and>
         (\<forall>wt. wt \<in> set worktrees \<and> distinct (map (\<lambda>x. wtRealPath w t1 (path x)) worktrees) \<longrightarrow>
            (fst (findWorktreeByPath w token cwd t) = Val (Some wt) \<longleftrightarrow>
             wtRealPath w t1 (path wt) = resolvedTarget w t1 token)) \<and>
         (\<forall>other. resolvedTarget w t1 other = resolvedTarget w t1 token \<longrightarrow>
            fst (findWorktreeByPath w other cwd t) = fst (findWorktreeByPath w token cwd t))"
proof (intro conjI allI impI)
  note run = findWorktreeByPath_run [OF assms, of token]
  fix wt
  assume "fst (findWorktreeByPath w token cwd t) = Val (Some wt)"
  with run have f: "find (\<lambda>wt. wtRealPath w t1 (path wt) = resolvedTarget w t1 token) worktrees = Some wt"
    by simp
  then show "wt \<in> set worktrees" by (auto simp: find_Some_iff)
  from f show "wtRealPath w t1 (path wt) = resolvedTarget w t1 token" by (auto simp: find_Some_iff)
next
  note run = findWorktreeByPath_run [OF assms, of token]
  show "fst (findWorktreeByPath w token cwd t) = Val None \<longleftrightarrow>
            list_all (\<lambda>wt. wtRealPath w t1 (path wt) \<noteq> resolvedTarget w t1 token) worktrees"
    by (auto simp: run find_None_iff list_all_iff)
next
  note run = findWorktreeByPath_run [OF assms, of token]
  fix wt
  assume a: "wt \<in> set worktrees \<and> distinct (map (\<lambda>x. wtRealPath w t1 (path x)) worktrees)"
  show "fst (findWorktreeByPath w token cwd t) = Val (Some wt) \<longleftrightarrow>
             wtRealPath w t1 (path wt) = resolvedTarget w t1 token"
  proof
    assume "fst (findWorktreeByPath w token cwd t) = Val (Some wt)"
    with run show "wtRealPath w t1 (path wt) = resolvedTarget w t1 token"
      by (auto simp: find_Some_iff)
  next
    assume eq: "wtRealPath w t1 (path wt) = resolvedTarget w t1 token"
    from a have "find (\<lambda>y. wtRealPath w t1 (path y) = wtRealPath w t1 (path wt)) worktrees = Some wt"
      using find_distinct_key [of "\<lambda>x. wtRealPath w t1 (path x)" worktrees wt] by simp
    with eq run show "fst (findWorktreeByPath w token cwd t) = Val (Some wt)" by simp
  qed
next
  fix other
  assume "resolvedTarget w t1 other = resolvedTarget w t1 token"
  then show "fst (findWorktreeByPath w other cwd t) = fst (findWorktreeByPath w token cwd t)"
    by (simp add: findWorktreeByPath_run [OF assms])
qed

lemma parse_links: "parseWorktreeList porcelain_links = [rec_main, rec_a, rec_b]"
  by code_simp

lemma symlinked_list:
  "getWorktrees symlinked_repo ''.'' [] = (Val [rec_main, rec_a, rec_b], [Exec (worktree_list_cmd ''.'')])"
  by (simp add: getWorktrees_run symlinked_repo_def with_fs_def exec_git_table worktree_list_cmd_def
        parse_links git_table_def)

lemma symlinked_paths:
  "wtRealPath symlinked_repo t ''/repo'' = ''/repo''"
  "wtRealPath symlinked_repo t ''/var/wt/a'' = ''/private/var/wt/a''"
  "wtRealPath symlinked_repo t ''/private/var/wt/b'' = ''/private/var/wt/b''"
  "resolvedTarget symlinked_repo t ''/private/var/wt/a'' = ''/private/var/wt/a''"
  "resolvedTarget symlinked_repo t ''/var/wt/b'' = ''/private/var/wt/b''"
  by (simp_all add: wtRealPath_def resolvedTarget_def symlinked_repo_def with_fs_def git_table_def
        no_repo_def resolve_abs_def)

text \<open>The witness: a record stored under a linked path is found by its real path, and a
  record stored under its real path is found by the linked one.\<close>

theorem findWorktreeByPath_real_path_witness:
  "getWorktrees symlinked_repo ''.'' [] = (Val [rec_main, rec_a, rec_b], [Exec (worktree_list_cmd ''.'')]) \<and>
   w_stat symlinked_repo [] ''/private/var/wt/a'' = Inr Directory \<and>
   w_stat symlinked_repo [] ''/var/wt/b'' = Inr Directory \<and>
   path rec_a = ''/var/wt/a'' \<and> path rec_b = ''/private/var/wt/b'' \<and>
   distinct (map (\<lambda>x. wtRealPath symlinked_repo [Exec (worktree_list_cmd ''.'')] (path x))
              [rec_main, rec_a, rec_b]) \<and>
   wtRealPath symlinked_repo [Exec (worktree_list_cmd ''.'')] (path rec_a)
     = resolvedTarget symlinked_repo [Exec (worktree_list_cmd ''.'')] ''/private/var/wt/a'' \<and>
   fst (findWorktreeByPath symlinked_repo ''/private/var/wt/a'' ''.'' []) = Val (Some rec_a) \<and>
   wtRealPath symlinked_repo [Exec (worktree_list_cmd ''.'')] (path rec_b)
     = resolvedTarget symlinked_repo [Exec (worktree_list_cmd ''.'')] ''/var/wt/b'' \<and>
   fst (findWorktreeByPath symlinked_repo ''/var/wt/b'' ''.'' []) = Val (Some rec_b)"
proof -
  let ?t1 = "[Exec (worktree_list_cmd ''.'')]"
  have st: "w_stat symlinked_repo [] ''/private/var/wt/a'' = Inr Directory"
           "w_stat symlinked_repo [] ''/var/wt/b'' = Inr Directory"
    by (simp_all add: symlinked_repo_def with_fs_def)
  have pa: "path rec_a = ''/var/wt/a''" "path rec_b = ''/private/var/wt/b''" "path rec_main = ''/repo''"
    by (simp_all add: rec_a_def rec_b_def rec_main_def)
  have d: "distinct (map (\<lambda>x. wtRealPath symlinked_repo ?t1 (path x)) [rec_main, rec_a, rec_b])"
    by (simp add: pa symlinked_paths)
  have ea: "wtRealPath symlinked_repo ?t1 (path rec_a) = resolvedTarget symlinked_repo ?t1 ''/private/var/wt/a''"
    by (simp add: pa symlinked_paths)
  have eb: "wtRealPath symlinked_repo ?t1 (path rec_b) = resolvedTarget symlinked_repo ?t1 ''/var/wt/b''"
    by (simp add: pa symlinked_paths)
  have ina: "rec_a \<in> set [rec_main, rec_a, rec_b] \<and>
             distinct (map (\<lambda>x. wtRealPath symlinked_repo ?t1 (path x)) [rec_main, rec_a, rec_b])"
    using d by simp
  have inb: "rec_b \<in> set [rec_main, rec_a, rec_b] \<and>
             distinct (map (\<lambda>x. wtRealPath symlinked_repo ?t1 (path x)) [rec_main, rec_a, rec_b])"
    using d by simp
  note th = findWorktreeByPath_real_path [OF symlinked_list]
  from th [of "''/private/var/wt/a''", THEN conjunct2, THEN conjunct2, THEN conjunct1,
           THEN spec, THEN mp, OF ina] ea
  have ra: "fst (findWorktreeByPath symlinked_repo ''/private/var/wt/a'' ''.'' []) = Val (Some rec_a)"
    by (rule iffD2)
  from th [of "''/var/wt/b''", THEN conjunct2, THEN conjunct2, THEN conjunct1,
           THEN spec, THEN mp, OF inb] eb
  have rb: "fst (findWorktreeByPath symlinked_repo ''/var/wt/b'' ''.'' []) = Val (Some rec_b)"
    by (rule iffD2)
  from symlinked_list st pa d ea ra eb rb show ?thesis by (intro conjI)
qed

section \<open>The upstream remote and the provider\<close>

lemma fork_repo_exec:
  "w_exec fork_repo t (upstream_cmd ''.'' ''main'')
     = Failed [] ''fatal: no upstream configured for branch main'' ''Command failed with exit code 128''"
  "w_exec fork_repo t (upstream_cmd ''.'' ''master'') = Succeeded ''upstream/master''"
  "w_exec fork_repo t (remote_cmd ''.'') = Succeeded ''origin\<newline>upstream''"
  by (simp_all add: fork_repo_def exec_git_table upstream_cmd_def remote_cmd_def)

lemma tracking_master: "trackingRemote ''upstream/master'' = Some ''upstream''"
  by code_simp

lemma pick_origin: "pickRemote ''origin\<newline>upstream'' = ''origin''"
  by code_simp

lemma getUpstreamRemote_main_answers:
  assumes "w_exec w t (upstream_cmd cwd ''main'') = Failed stdout stderr message"
      and "trackingRemote stdout = None"
  shows "getUpstreamRemote w cwd t =
           (case w_exec w (t @ [Exec (upstream_cmd cwd ''main'')]) (remote_cmd cwd) of
              Succeeded remotesOutput \<Rightarrow>
                (Val (pickRemote remotesOutput),
                 t @ [Exec (upstream_cmd cwd ''main''), Exec (remote_cmd cwd)])
            | Failed x y z \<Rightarrow> (Val ''origin'', t @ [Exec (upstream_cmd cwd ''main''), Exec (remote_cmd cwd)])
            | NoSpawn z \<Rightarrow> (Val ''origin'', t @ [Exec (upstream_cmd cwd ''main''), Exec (remote_cmd cwd)]))"
  using assms
  by (simp add: getUpstreamRemote_def run split: proc.splits)

lemma getUpstreamRemote_never_asks_master:
  assumes "w_exec w t (upstream_cmd cwd ''main'') = Failed stdout stderr message"
  shows "\<not> issued (drop (length t) (snd (getUpstreamRemote w cwd t))) (upstream_cmd cwd ''master'')"
  using assms
  by (simp add: getUpstreamRemote_def run issued_def upstream_cmd_def remote_cmd_def
        split: proc.splits option.splits)

text \<open>
  Claim C6. Where \<open>main\<close> tracks nothing and \<open>master\<close> tracks \<open>upstream/master\<close>,
  \<open>getUpstreamRemote\<close> does not return \<open>upstream\<close>: the call for \<open>main\<close> fails without
  throwing (\<open>reject: false\<close>), so the \<open>catch\<close> that asks for \<open>master\<close> is not reached;
  the function goes on to the remote names and returns \<open>origin\<close>.
\<close>

theorem getUpstreamRemote_skips_master:
  "w_exec fork_repo [] (upstream_cmd ''.'' ''master'') = Succeeded ''upstream/master'' \<and>
   trackingRemote ''upstream/master'' = Some ''upstream'' \<and>
   getUpstreamRemote fork_repo ''.'' []
     = (Val ''origin'', [Exec (upstream_cmd ''.'' ''main''), Exec (remote_cmd ''.'')])"
proof -
  have "trackingRemote [] = None" by (simp add: trackingRemote_def)
  from getUpstreamRemote_main_answers [OF fork_repo_exec(1) this]
  show ?thesis by (simp add: fork_repo_exec tracking_master pick_origin)
qed

lemma selfhosted_exec:
  "w_exec selfhosted_repo t (upstream_cmd ''.'' ''main'') = Succeeded ''origin/main''"
  "w_exec selfhosted_repo t (get_url_cmd ''.'' ''origin'')
     = Succeeded ''git@gitlab.my-company.com:team/repo.git''"
  by (simp_all add: selfhosted_repo_def exec_git_table upstream_cmd_def get_url_cmd_def)

lemma tracking_origin: "trackingRemote ''origin/main'' = Some ''origin''"
  by code_simp

lemma trim_url: "trim ''git@gitlab.my-company.com:team/repo.git'' = ''git@gitlab.my-company.com:team/repo.git''"
  by code_simp

lemma scp_selfhosted: "scpHost ''git@gitlab.my-company.com:team/repo.git'' = Some ''gitlab.my-company.com''"
  by code_simp

lemma lower_selfhosted: "toLowerCase ''gitlab.my-company.com'' = ''gitlab.my-company.com''"
  by code_simp

lemma host_selfhosted:
  "getRemoteHostname w ''git@gitlab.my-company.com:team/repo.git'' = Some ''gitlab.my-company.com''"
  by (simp add: getRemoteHostname_def scp_selfhosted lower_selfhosted) (simp add: startsWith_def)

lemma provider_selfhosted: "providerOfHost (Some ''gitlab.my-company.com'') = None"
  by code_simp

lemma upstream_selfhosted:
  "getUpstreamRemote selfhosted_repo ''.'' [] = (Val ''origin'', [Exec (upstream_cmd ''.'' ''main'')])"
  by (simp add: getUpstreamRemote_def run selfhosted_exec tracking_origin)

text \<open>
  Claim C5. The host \<open>gitlab.my-company.com\<close> begins with \<open>gitlab.\<close>, and
  \<open>detectGitProvider\<close> returns \<open>null\<close> for it: the pattern allows only lower-case
  letters and dots after \<open>gitlab.\<close>, so a hyphen or a digit in the host makes it unknown.
\<close>

theorem detectGitProvider_selfhosted_gitlab:
  "getRemoteHostname selfhosted_repo ''git@gitlab.my-company.com:team/repo.git''
     = Some ''gitlab.my-company.com'' \<and>
   startsWith ''gitlab.my-company.com'' ''gitlab.'' \<and>
   detectGitProvider selfhosted_repo ''.'' []
     = (Val None, [Exec (upstream_cmd ''.'' ''main''), Exec (get_url_cmd ''.'' ''origin'')])"
proof -
  have "detectGitProvider selfhosted_repo ''.'' []
     = (Val None, [Exec (upstream_cmd ''.'' ''main''), Exec (get_url_cmd ''.'' ''origin'')])"
    by (simp add: detectGitProvider_def run upstream_selfhosted selfhosted_exec(2)
          trim_url host_selfhosted provider_selfhosted)
  then show ?thesis by (simp add: host_selfhosted) (simp add: startsWith_def)
qed

section \<open>Stashing\<close>

lemma applyAndDropStash_run:
  "applyAndDropStash w stashHash cwd t =
     (case w_exec w t (apply_cmd cwd stashHash) of
        Succeeded stdout \<Rightarrow> (Val True, t @ [Exec (apply_cmd cwd stashHash)])
      | Failed stdout stderr message \<Rightarrow>
          (Val False, t @ [Exec (apply_cmd cwd stashHash),
                           Console (''Failed to apply stash: '' @ stderr_or_message (ExecaError stderr message))])
      | NoSpawn message \<Rightarrow>
          (Val False, t @ [Exec (apply_cmd cwd stashHash),
                           Console (''Failed to apply stash: '' @ stderr_or_message (ExecaError [] message))]))"
  by (simp add: applyAndDropStash_def try_catch_def execa_def pure_def bind_def console_def split: proc.splits)

lemma applyAndDropStash_commands:
  "commands (snd (applyAndDropStash w stashHash cwd t)) = commands t @ [apply_cmd cwd stashHash]"
  by (simp add: applyAndDropStash_run commands_append split: proc.splits)

lemma stashChanges_status_rejected:
  assumes "rejection (w_exec w t (status_cmd cwd)) = Some e"
  shows "stashChanges w cwd message t =
           (Val None, t @ [Exec (status_cmd cwd), Console (''Failed to stash changes: '' @ stderr_or_message e)])"
  using assms
  by (simp add: stashChanges_def try_catch_def bind_rejected bind_resolved bind_console pure_def Let_def)

lemma stashChanges_clean:
  assumes "w_exec w t (status_cmd cwd) = Succeeded statusOutput" "trim statusOutput = []"
  shows "stashChanges w cwd message t = (Val None, t @ [Exec (status_cmd cwd)])"
  using assms
  by (simp add: stashChanges_def try_catch_def bind_rejected bind_resolved bind_console pure_def Let_def)

lemma stashChanges_add_rejected:
  assumes "w_exec w t (status_cmd cwd) = Succeeded statusOutput" "trim statusOutput \<noteq> []"
      and "rejection (w_exec w (t @ [Exec (status_cmd cwd)]) (add_cmd cwd)) = Some e"
  shows "stashChanges w cwd message t =
           (Val None, t @ [Exec (status_cmd cwd), Exec (add_cmd cwd),
                           Console (''Failed to stash changes: '' @ stderr_or_message e)])"
  using assms
  by (simp add: stashChanges_def try_catch_def bind_rejected bind_resolved bind_console pure_def Let_def)

lemma stashChanges_create_rejected:
  assumes "w_exec w t (status_cmd cwd) = Succeeded statusOutput" "trim statusOutput \<noteq> []"
      and "w_exec w (t @ [Exec (status_cmd cwd)]) (add_cmd cwd) = Succeeded added"
      and "rejection (w_exec w (t @ [Exec (status_cmd cwd), Exec (add_cmd cwd)]) (create_cmd cwd message)) = Some e"
  shows "stashChanges w cwd message t =
           (Val None, t @ [Exec (status_cmd cwd), Exec (add_cmd cwd), Exec (create_cmd cwd message),
                           Console (''Failed to stash changes: '' @ stderr_or_message e)])"
  using assms
  by (simp add: stashChanges_def try_catch_def bind_rejected bind_resolved bind_console pure_def Let_def)

lemma stashChanges_no_hash:
  assumes "w_exec w t (status_cmd cwd) = Succeeded statusOutput" "trim statusOutput \<noteq> []"
      and "w_exec w (t @ [Exec (status_cmd cwd)]) (add_cmd cwd) = Succeeded added"
      and "w_exec w (t @ [Exec (status_cmd cwd), Exec (add_cmd cwd)]) (create_cmd cwd message) = Succeeded stdout"
      and "trim stdout = []"
  shows "stashChanges w cwd message t =
           (Val None, t @ [Exec (status_cmd cwd), Exec (add_cmd cwd), Exec (create_cmd cwd message)])"
  using assms
  by (simp add: stashChanges_def try_catch_def bind_rejected bind_resolved bind_console pure_def Let_def)

lemma stashChanges_reset_rejected:
  assumes "w_exec w t (status_cmd cwd) = Succeeded statusOutput" "trim statusOutput \<noteq> []"
      and "w_exec w (t @ [Exec (status_cmd cwd)]) (add_cmd cwd) = Succeeded added"
      and "w_exec w (t @ [Exec (status_cmd cwd), Exec (add_cmd cwd)]) (create_cmd cwd message) = Succeeded stdout"
      and "trim stdout \<noteq> []"
      and "rejection (w_exec w (t @ [Exec (status_cmd cwd), Exec (add_cmd cwd), Exec (create_cmd cwd message)]) (reset_cmd cwd)) = Some e"
  shows "stashChanges w cwd message t =
           (Val None, t @ [Exec (status_cmd cwd), Exec (add_cmd cwd), Exec (create_cmd cwd message),
                           Exec (reset_cmd cwd),
                           Console (''Failed to stash changes: '' @ stderr_or_message e)])"
  using assms
  by (simp add: stashChanges_def try_catch_def bind_rejected bind_resolved bind_console pure_def Let_def)

lemma stashChanges_clean_rejected:
  assumes "w_exec w t (status_cmd cwd) = Succeeded statusOutput" "trim statusOutput \<noteq> []"
      and "w_exec w (t @ [Exec (status_cmd cwd)]) (add_cmd cwd) = Succeeded added"
      and "w_exec w (t @ [Exec (status_cmd cwd), Exec (add_cmd cwd)]) (create_cmd cwd message) = Succeeded stdout"
      and "trim stdout \<noteq> []"
      and "w_exec w (t @ [Exec (status_cmd cwd), Exec (add_cmd cwd), Exec (create_cmd cwd message)]) (reset_cmd cwd) = Succeeded r"
      and "rejection (w_exec w (t @ [Exec (status_cmd cwd), Exec (add_cmd cwd), Exec (create_cmd cwd message), Exec (reset_cmd cwd)]) (clean_cmd cwd)) = Some e"
  shows "stashChanges w cwd message t =
           (Val None, t @ [Exec (status_cmd cwd), Exec (add_cmd cwd), Exec (create_cmd cwd message),
                           Exec (reset_cmd cwd), Exec (clean_cmd cwd),
                           Console (''Failed to stash changes: '' @ stderr_or_message e)])"
  using assms
  by (simp add: stashChanges_def try_catch_def bind_rejected bind_resolved bind_console pure_def Let_def)

lemma stashChanges_stashed:
  assumes "w_exec w t (status_cmd cwd) = Succeeded statusOutput" "trim statusOutput \<noteq> []"
      and "w_exec w (t @ [Exec (status_cmd cwd)]) (add_cmd cwd) = Succeeded added"
      and "w_exec w (t @ [Exec (status_cmd cwd), Exec (add_cmd cwd)]) (create_cmd cwd message) = Succeeded stdout"
      and "trim stdout \<noteq> []"
      and "w_exec w (t @ [Exec (status_cmd cwd), Exec (add_cmd cwd), Exec (create_cmd cwd message)]) (reset_cmd cwd) = Succeeded r"
      and "w_exec w (t @ [Exec (status_cmd cwd), Exec (add_cmd cwd), Exec (create_cmd cwd message), Exec (reset_cmd cwd)]) (clean_cmd cwd) = Succeeded c"
  shows "stashChanges w cwd message t =
           (Val (Some (trim stdout)), t @ [Exec (status_cmd cwd), Exec (add_cmd cwd), Exec (create_cmd cwd message),
                           Exec (reset_cmd cwd), Exec (clean_cmd cwd)])"
  using assms
  by (simp add: stashChanges_def try_catch_def bind_rejected bind_resolved bind_console pure_def Let_def)

lemma reset_not_before [simp]:
  "reset_cmd cwd \<noteq> status_cmd cwd" "reset_cmd cwd \<noteq> add_cmd cwd" "reset_cmd cwd \<noteq> create_cmd cwd message"
  "clean_cmd cwd \<noteq> status_cmd cwd" "clean_cmd cwd \<noteq> add_cmd cwd" "clean_cmd cwd \<noteq> create_cmd cwd message"
  by (simp_all add: reset_cmd_def clean_cmd_def status_cmd_def add_cmd_def create_cmd_def)

lemma createdHash_rej1: "rejection (w_exec w t (status_cmd cwd)) = Some e \<Longrightarrow> createdHash w cwd message t = None"
  by (cases "w_exec w t (status_cmd cwd)") (simp_all add: createdHash_def)

lemma createdHash_rej2:
  "w_exec w t (status_cmd cwd) = Succeeded s \<Longrightarrow>
   rejection (w_exec w (t @ [Exec (status_cmd cwd)]) (add_cmd cwd)) = Some e \<Longrightarrow> createdHash w cwd message t = None"
  by (cases "w_exec w (t @ [Exec (status_cmd cwd)]) (add_cmd cwd)") (simp_all add: createdHash_def)

lemma createdHash_rej3:
  "w_exec w t (status_cmd cwd) = Succeeded s \<Longrightarrow>
   w_exec w (t @ [Exec (status_cmd cwd)]) (add_cmd cwd) = Succeeded a \<Longrightarrow>
   rejection (w_exec w (t @ [Exec (status_cmd cwd), Exec (add_cmd cwd)]) (create_cmd cwd message)) = Some e \<Longrightarrow> createdHash w cwd message t = None"
  by (cases "w_exec w (t @ [Exec (status_cmd cwd), Exec (add_cmd cwd)]) (create_cmd cwd message)") (simp_all add: createdHash_def)

lemma createdHash_ok:
  "w_exec w t (status_cmd cwd) = Succeeded s \<Longrightarrow> trim s \<noteq> [] \<Longrightarrow>
   w_exec w (t @ [Exec (status_cmd cwd)]) (add_cmd cwd) = Succeeded a \<Longrightarrow>
   w_exec w (t @ [Exec (status_cmd cwd), Exec (add_cmd cwd)]) (create_cmd cwd message) = Succeeded out \<Longrightarrow>
   createdHash w cwd message t = (if trim out = [] then None else Some (trim out))"
  by (simp add: createdHash_def)

lemma createdHash_clean:
  "w_exec w t (status_cmd cwd) = Succeeded s \<Longrightarrow> trim s = [] \<Longrightarrow> createdHash w cwd message t = None"
  by (simp add: createdHash_def)

lemma stashChanges_shape:
  obtains
    (status_rejected) e where
      "rejection (w_exec w t (status_cmd cwd)) = Some e"
      "stashChanges w cwd message t =
         (Val None, t @ [Exec (status_cmd cwd), Console (''Failed to stash changes: '' @ stderr_or_message e)])"
  | (clean) statusOutput where
      "w_exec w t (status_cmd cwd) = Succeeded statusOutput" "trim statusOutput = []"
      "stashChanges w cwd message t = (Val None, t @ [Exec (status_cmd cwd)])"
  | (add_rejected) statusOutput e where
      "w_exec w t (status_cmd cwd) = Succeeded statusOutput" "trim statusOutput \<noteq> []"
      "rejection (w_exec w (t @ [Exec (status_cmd cwd)]) (add_cmd cwd)) = Some e"
      "stashChanges w cwd message t =
         (Val None, t @ [Exec (status_cmd cwd), Exec (add_cmd cwd),
                         Console (''Failed to stash changes: '' @ stderr_or_message e)])"
  | (create_rejected) statusOutput added e where
      "w_exec w t (status_cmd cwd) = Succeeded statusOutput" "trim statusOutput \<noteq> []"
      "w_exec w (t @ [Exec (status_cmd cwd)]) (add_cmd cwd) = Succeeded added"
      "rejection (w_exec w (t @ [Exec (status_cmd cwd), Exec (add_cmd cwd)]) (create_cmd cwd message)) = Some e"
      "stashChanges w cwd message t =
         (Val None, t @ [Exec (status_cmd cwd), Exec (add_cmd cwd), Exec (create_cmd cwd message),
                         Console (''Failed to stash changes: '' @ stderr_or_message e)])"
  | (no_hash) statusOutput added stdout where
      "w_exec w t (status_cmd cwd) = Succeeded statusOutput" "trim statusOutput \<noteq> []"
      "w_exec w (t @ [Exec (status_cmd cwd)]) (add_cmd cwd) = Succeeded added"
      "w_exec w (t @ [Exec (status_cmd cwd), Exec (add_cmd cwd)]) (create_cmd cwd message) = Succeeded stdout"
      "trim stdout = []"
      "stashChanges w cwd message t =
         (Val None, t @ [Exec (status_cmd cwd), Exec (add_cmd cwd), Exec (create_cmd cwd message)])"
  | (reset_rejected) statusOutput added stdout e where
      "w_exec w t (status_cmd cwd) = Succeeded statusOutput" "trim statusOutput \<noteq> []"
      "w_exec w (t @ [Exec (status_cmd cwd)]) (add_cmd cwd) = Succeeded added"
      "w_exec w (t @ [Exec (status_cmd cwd), Exec (add_cmd cwd)]) (create_cmd cwd message) = Succeeded stdout"
      "trim stdout \<noteq> []"
      "stashChanges w cwd message t =
         (Val None, t @ [Exec (status_cmd cwd), Exec (add_cmd cwd), Exec (create_cmd cwd message),
                         Exec (reset_cmd cwd),
                         Console (''Failed to stash changes: '' @ stderr_or_message e)])"
  | (clean_rejected) statusOutput added stdout e where
      "w_exec w t (status_cmd cwd) = Succeeded statusOutput" "trim statusOutput \<noteq> []"
      "w_exec w (t @ [Exec (status_cmd cwd)]) (add_cmd cwd) = Succeeded added"
      "w_exec w (t @ [Exec (status_cmd cwd), Exec (add_cmd cwd)]) (create_cmd cwd message) = Succeeded stdout"
      "trim stdout \<noteq> []"
      "stashChanges w cwd message t =
         (Val None, t @ [Exec (status_cmd cwd), Exec (add_cmd cwd), Exec (create_cmd cwd message),
                         Exec (reset_cmd cwd), Exec (clean_cmd cwd),
                         Console (''Failed to stash changes: '' @ stderr_or_message e)])"
  | (stashed) statusOutput added stdout where
      "w_exec w t (status_cmd cwd) = Succeeded statusOutput" "trim statusOutput \<noteq> []"
      "w_exec w (t @ [Exec (status_cmd cwd)]) (add_cmd cwd) = Succeeded added"
      "w_exec w (t @ [Exec (status_cmd cwd), Exec (add_cmd cwd)]) (create_cmd cwd message) = Succeeded stdout"
      "trim stdout \<noteq> []"
      "stashChanges w cwd message t =
         (Val (Some (trim stdout)), t @ [Exec (status_cmd cwd), Exec (add_cmd cwd), Exec (create_cmd cwd message),
                         Exec (reset_cmd cwd), Exec (clean_cmd cwd)])"
proof (cases "w_exec w t (status_cmd cwd)" rule: proc_cases)
  case (rejected e)
  show ?thesis
    by (rule status_rejected [OF rejected stashChanges_status_rejected [OF rejected]])
next
  case s: (resolved statusOutput)
  show ?thesis
  proof (cases "trim statusOutput = []")
    case True
    show ?thesis
      by (rule clean [OF s True stashChanges_clean [OF s True]])
  next
    case dirty: False
    show ?thesis
    proof (cases "w_exec w (t @ [Exec (status_cmd cwd)]) (add_cmd cwd)" rule: proc_cases)
      case (rejected e)
      show ?thesis
        by (rule add_rejected [OF s dirty rejected stashChanges_add_rejected [OF s dirty rejected]])
    next
      case a: (resolved added)
      show ?thesis
      proof (cases "w_exec w (t @ [Exec (status_cmd cwd), Exec (add_cmd cwd)]) (create_cmd cwd message)" rule: proc_cases)
        case (rejected e)
        show ?thesis
          by (rule create_rejected [OF s dirty a rejected stashChanges_create_rejected [OF s dirty a rejected]])
      next
        case c: (resolved stdout)
        show ?thesis
        proof (cases "trim stdout = []")
          case True
          show ?thesis
            by (rule no_hash [OF s dirty a c True stashChanges_no_hash [OF s dirty a c True]])
        next
          case hash: False
          show ?thesis
          proof (cases "w_exec w (t @ [Exec (status_cmd cwd), Exec (add_cmd cwd), Exec (create_cmd cwd message)]) (reset_cmd cwd)" rule: proc_cases)
            case (rejected e)
            show ?thesis
              by (rule reset_rejected [OF s dirty a c hash stashChanges_reset_rejected [OF s dirty a c hash rejected]])
          next
            case r: (resolved reset)
            show ?thesis
            proof (cases "w_exec w (t @ [Exec (status_cmd cwd), Exec (add_cmd cwd), Exec (create_cmd cwd message), Exec (reset_cmd cwd)]) (clean_cmd cwd)" rule: proc_cases)
              case (rejected e)
              show ?thesis
                by (rule clean_rejected [OF s dirty a c hash stashChanges_clean_rejected [OF s dirty a c hash r rejected]])
            next
              case (resolved cleaned)
              show ?thesis
                by (rule stashed [OF s dirty a c hash stashChanges_stashed [OF s dirty a c hash r resolved]])
            qed
          qed
        qed
      qed
    qed
  qed
qed

lemma dirty_repo_exec:
  "w_exec (dirty_repo created cleaned) t (status_cmd ''.'') = Succeeded '' M src/index.ts''"
  "w_exec (dirty_repo created cleaned) t (add_cmd ''.'') = Succeeded []"
  "w_exec (dirty_repo created cleaned) t (create_cmd ''.'' None) = Succeeded created"
  "w_exec (dirty_repo created cleaned) t (reset_cmd ''.'') = Succeeded ''HEAD is now at 1111 init''"
  "w_exec (dirty_repo created cleaned) t (clean_cmd ''.'') = cleaned"
  by (simp_all add: dirty_repo_def exec_git_table status_cmd_def add_cmd_def create_cmd_def reset_cmd_def clean_cmd_def)

lemma clean_repo_exec: "w_exec clean_repo t (status_cmd ''.'') = Succeeded []"
  by (simp add: clean_repo_def exec_git_table status_cmd_def)

lemma trim_status: "trim '' M src/index.ts'' \<noteq> []"
  by (simp add: trim_def isWhiteSpace_def)

lemma trim_hash: "trim ''3f2a9c1'' = ''3f2a9c1''"
  by (simp add: trim_def isWhiteSpace_def)

text \<open>
  Claim C1. \<open>applyAndDropStash\<close> applies the hash it is given and issues no other
  command, whatever the repository answers. On the handle \<open>3f2a9c1\<close>, with an apply
  step that succeeds, it returns \<open>true\<close> after the single command
  \<open>git -C . stash apply 3f2a9c1\<close>. No drop follows, so the handle is applied and never
  dropped.
\<close>

theorem applyAndDropStash_only_applies:
  "commands (snd (applyAndDropStash w stashHash cwd t)) = commands t @ [apply_cmd cwd stashHash] \<and>
   applyAndDropStash stash_repo ''3f2a9c1'' ''.'' []
     = (Val True, [Exec [''git'', ''-C'', ''.'', ''stash'', ''apply'', ''3f2a9c1'']])"
  by (simp add: applyAndDropStash_commands)
     (simp add: applyAndDropStash_run stash_repo_def git_table_def apply_cmd_def)

text \<open>
  Claim C4. A clean work tree makes \<open>stashChanges\<close> return \<open>null\<close> after the status
  command alone. A dirty work tree whose create step succeeds and prints no hash makes
  it return \<open>null\<close> as well, after the status, add and create commands and with
  nothing printed: the caller gets the value of a clean tree, where the claim asks for
  an outcome of its own.
\<close>

theorem stashChanges_no_hash_returns_null:
  "stashChanges clean_repo ''.'' None [] = (Val None, [Exec (status_cmd ''.'')]) \<and>
   w_exec (dirty_repo [] (Succeeded [])) [] (status_cmd ''.'') = Succeeded '' M src/index.ts'' \<and>
   trim '' M src/index.ts'' \<noteq> [] \<and>
   stashChanges (dirty_repo [] (Succeeded [])) ''.'' None []
     = (Val None, [Exec (status_cmd ''.''), Exec (add_cmd ''.''), Exec (create_cmd ''.'' None)])"
proof -
  have a: "stashChanges clean_repo ''.'' None [] = (Val None, [Exec (status_cmd ''.'')])"
    using stashChanges_clean [where w = clean_repo and t = "[]" and cwd = "''.''"
            and message = None and statusOutput = "[]"]
    by (simp add: clean_repo_exec trim_Nil)
  have b: "stashChanges (dirty_repo [] (Succeeded [])) ''.'' None []
     = (Val None, [Exec (status_cmd ''.''), Exec (add_cmd ''.''), Exec (create_cmd ''.'' None)])"
    using stashChanges_no_hash [where w = "dirty_repo [] (Succeeded [])" and t = "[]"
            and cwd = "''.''" and message = None and statusOutput = "'' M src/index.ts''"
            and added = "[]" and stdout = "[]"]
    by (simp add: dirty_repo_exec trim_status trim_Nil)
  from a b show ?thesis by (simp add: dirty_repo_exec trim_status)
qed

text \<open>
  Claim C10, as amended. When no hash comes back from the create step (the status is
  blank, a step up to the create step fails, or the create step prints nothing),
  \<open>stashChanges\<close> returns \<open>null\<close> and issues neither the reset nor the clean command.
  When a hash comes back, the first four commands are status, add, create and reset, in
  this order. When \<open>stashChanges\<close> returns a hash, it is the one the create step
  printed, and the commands were status, add, create, reset and clean.
\<close>

theorem stashChanges_reset_needs_hash:
  "(createdHash w cwd message t = None \<longrightarrow>
      fst (stashChanges w cwd message t) = Val None \<and>
      \<not> issued (stashEvents w cwd message t) (reset_cmd cwd) \<and>
      \<not> issued (stashEvents w cwd message t) (clean_cmd cwd)) \<and>
   (createdHash w cwd message t \<noteq> None \<longrightarrow>
      take 4 (commands (stashEvents w cwd message t)) =
        [status_cmd cwd, add_cmd cwd, create_cmd cwd message, reset_cmd cwd]) \<and>
   (\<forall>h. fst (stashChanges w cwd message t) = Val (Some h) \<longrightarrow>
      createdHash w cwd message t = Some h \<and>
      commands (stashEvents w cwd message t) =
        [status_cmd cwd, add_cmd cwd, create_cmd cwd message, reset_cmd cwd, clean_cmd cwd])"
proof (cases rule: stashChanges_shape [of w t cwd message])
  case (status_rejected e)
  then show ?thesis by (simp add: createdHash_rej1 stashEvents_def issued_def)
next
  case (clean statusOutput)
  then show ?thesis by (simp add: createdHash_clean stashEvents_def issued_def)
next
  case (add_rejected statusOutput e)
  then show ?thesis by (simp add: createdHash_rej2 stashEvents_def issued_def)
next
  case (create_rejected statusOutput added e)
  then show ?thesis by (simp add: createdHash_rej3 stashEvents_def issued_def)
next
  case (no_hash statusOutput added stdout)
  then show ?thesis by (simp add: createdHash_ok stashEvents_def issued_def)
next
  case (reset_rejected statusOutput added stdout e)
  then show ?thesis by (simp add: createdHash_ok stashEvents_def)
next
  case (clean_rejected statusOutput added stdout e)
  then show ?thesis by (simp add: createdHash_ok stashEvents_def)
next
  case (stashed statusOutput added stdout)
  then show ?thesis by (simp add: createdHash_ok stashEvents_def)
qed

theorem stashChanges_reset_needs_hash_witness:
  "createdHash (dirty_repo [] (Succeeded [])) ''.'' None [] = None \<and>
   fst (stashChanges (dirty_repo [] (Succeeded [])) ''.'' None []) = Val None \<and>
   \<not> issued (stashEvents (dirty_repo [] (Succeeded [])) ''.'' None []) (reset_cmd ''.'') \<and>
   \<not> issued (stashEvents (dirty_repo [] (Succeeded [])) ''.'' None []) (clean_cmd ''.'') \<and>
   createdHash (dirty_repo ''3f2a9c1'' (Succeeded [])) ''.'' None [] \<noteq> None \<and>
   take 4 (commands (stashEvents (dirty_repo ''3f2a9c1'' (Succeeded [])) ''.'' None [])) =
        [status_cmd ''.'', add_cmd ''.'', create_cmd ''.'' None, reset_cmd ''.''] \<and>
   fst (stashChanges (dirty_repo ''3f2a9c1'' (Succeeded [])) ''.'' None []) = Val (Some ''3f2a9c1'') \<and>
   createdHash (dirty_repo ''3f2a9c1'' (Succeeded [])) ''.'' None [] = Some ''3f2a9c1''"
proof -
  have none: "createdHash (dirty_repo [] (Succeeded [])) ''.'' None [] = None"
    by (simp add: createdHash_def dirty_repo_exec trim_status trim_Nil)
  have some: "createdHash (dirty_repo ''3f2a9c1'' (Succeeded [])) ''.'' None [] \<noteq> None"
    by (simp add: createdHash_def dirty_repo_exec trim_status trim_hash)
  have run: "fst (stashChanges (dirty_repo ''3f2a9c1'' (Succeeded [])) ''.'' None []) = Val (Some ''3f2a9c1'')"
    using stashChanges_stashed [where t = "[]" and message = None and cwd = "''.''" and w = "dirty_repo ''3f2a9c1'' (Succeeded [])"]
    by (simp add: dirty_repo_exec trim_status trim_hash)
  note a = stashChanges_reset_needs_hash [of "dirty_repo [] (Succeeded [])" "''.''" None "[]"]
  note b = stashChanges_reset_needs_hash [of "dirty_repo ''3f2a9c1'' (Succeeded [])" "''.''" None "[]"]
  from a none have 1: "fst (stashChanges (dirty_repo [] (Succeeded [])) ''.'' None []) = Val None \<and>
   \<not> issued (stashEvents (dirty_repo [] (Succeeded [])) ''.'' None []) (reset_cmd ''.'') \<and>
   \<not> issued (stashEvents (dirty_repo [] (Succeeded [])) ''.'' None []) (clean_cmd ''.'')"
    by blast
  from b some have 2: "take 4 (commands (stashEvents (dirty_repo ''3f2a9c1'' (Succeeded [])) ''.'' None [])) =
        [status_cmd ''.'', add_cmd ''.'', create_cmd ''.'' None, reset_cmd ''.'']"
    by blast
  from b run have 3: "createdHash (dirty_repo ''3f2a9c1'' (Succeeded [])) ''.'' None [] = Some ''3f2a9c1''"
    by blast
  from none some run 1 2 3 show ?thesis by blast
qed

text \<open>
  Claim C10 as it is written fails where it says that any failing step makes the
  function return without the reset: when the clean step fails, the work tree has been
  reset already, and the function returns \<open>null\<close>.
\<close>

theorem stashChanges_reset_needs_hash_counterexample:
  "stashChanges (dirty_repo ''3f2a9c1'' clean_denied) ''.'' None []
     = (Val None,
        [Exec (status_cmd ''.''), Exec (add_cmd ''.''), Exec (create_cmd ''.'' None),
         Exec (reset_cmd ''.''), Exec (clean_cmd ''.''),
         Console ''Failed to stash changes: warning: failed to remove build/: Permission denied''])
   \<and> issued (stashEvents (dirty_repo ''3f2a9c1'' clean_denied) ''.'' None []) (reset_cmd ''.'')"
proof -
  have rej: "rejection (w_exec (dirty_repo ''3f2a9c1'' clean_denied)
               ([] @ [Exec (status_cmd ''.''), Exec (add_cmd ''.''), Exec (create_cmd ''.'' None), Exec (reset_cmd ''.'')])
               (clean_cmd ''.'')) = Some (ExecaError ''warning: failed to remove build/: Permission denied'' ''Command failed with exit code 1'')"
    by (simp add: dirty_repo_exec clean_denied_def)
  have run: "stashChanges (dirty_repo ''3f2a9c1'' clean_denied) ''.'' None []
     = (Val None,
        [Exec (status_cmd ''.''), Exec (add_cmd ''.''), Exec (create_cmd ''.'' None),
         Exec (reset_cmd ''.''), Exec (clean_cmd ''.''),
         Console ''Failed to stash changes: warning: failed to remove build/: Permission denied''])"
    using stashChanges_clean_rejected [OF dirty_repo_exec(1) trim_status dirty_repo_exec(2) dirty_repo_exec(3) _ dirty_repo_exec(4) rej]
    by (simp add: trim_hash)
  then show ?thesis by (simp add: stashEvents_def issued_def)
qed

section \<open>Removing a worktree\<close>

lemma emits_getWorktrees:
  "P (Exec (worktree_list_cmd cwd)) \<Longrightarrow> (\<And>s. P (Console s)) \<Longrightarrow> emits P (getWorktrees w cwd)"
  unfolding getWorktrees_def
  by (intro emits_try_catch emits_bind emits_execa emits_console emits_pure)

lemma emits_findWorktreeByBranch:
  "P (Exec (worktree_list_cmd cwd)) \<Longrightarrow> (\<And>s. P (Console s)) \<Longrightarrow> emits P (findWorktreeByBranch w b cwd)"
  unfolding findWorktreeByBranch_def
  by (intro emits_bind emits_getWorktrees emits_pure)

lemma emits_findWorktreeByPath:
  "P (Exec (worktree_list_cmd cwd)) \<Longrightarrow> (\<And>s. P (Console s)) \<Longrightarrow> emits P (findWorktreeByPath w p cwd)"
  unfolding findWorktreeByPath_def
  by (intro emits_bind emits_getWorktrees) (simp_all add: emits_def)

lemma emits_promptOne: "P (Prompt s) \<Longrightarrow> emits P (promptOne w s choices)"
  by (simp add: emits_def promptOne_def)

lemma emits_promptMany: "P (Prompt s) \<Longrightarrow> emits P (promptMany w s choices)"
  by (simp add: emits_def promptMany_def)

lemma emits_selectWorktree:
  assumes "P (Exec (worktree_list_cmd ''.''))" "\<And>s. P (Console s)" "\<And>s. P (Prompt s)"
  shows "emits P (selectWorktree w message excludeMain multiSelect)"
  unfolding selectWorktree_def Let_def
proof (rule emits_bind)
  show "emits P (getWorktrees w ''.'')"
    using assms by (intro emits_getWorktrees)
next
  fix worktrees
  show "emits P (if worktrees = [] then bind (console ''No worktrees found.'') (\<lambda>_. pure NoSelection)
          else if excludeMain \<and> (if excludeMain then filter (\<lambda>wt. \<not> isMain wt) worktrees else worktrees) = []
               then bind (console ''No worktrees to select (only main worktree exists).'') (\<lambda>_. pure NoSelection)
               else if multiSelect
                    then promptMany w message (if excludeMain then filter (\<lambda>wt. \<not> isMain wt) worktrees else worktrees)
                    else promptOne w message (if excludeMain then filter (\<lambda>wt. \<not> isMain wt) worktrees else worktrees))"
    using assms by (auto intro!: emits_bind emits_console emits_promptOne emits_promptMany)
qed

lemma readOnly_list [simp]: "readOnly (Exec (worktree_list_cmd ''.''))"
  by simp

lemma emits_remove_resolveTarget: "emits readOnly (remove_resolveTarget w pathOrBranch)"
  unfolding remove_resolveTarget_def
  by (auto intro!: emits_bind emits_try_catch emits_selectWorktree emits_findWorktreeByPath
        emits_findWorktreeByBranch emits_console
      split: selection.splits option.splits)

text \<open>
  Claim C2. When the handler is inside a work tree and its target resolves to a record
  with \<open>isMain\<close>, it prints that the main worktree cannot be removed and ends the
  process with code 1, whatever the force flag; all it has done by then is to run the two
  queries, print and ask: no removal command, no branch deletion, no \<open>rm\<close>.
\<close>

theorem removeWorktreeHandler_refuses_main:
  assumes "w_exec w t inside_work_tree_cmd = Succeeded out"
      and "remove_resolveTarget w pathOrBranch (t @ [Exec inside_work_tree_cmd]) = (Val targetWorktree, t')"
      and "isMain targetWorktree"
  shows "removeWorktreeHandler w pathOrBranch force t
           = (Halt 1, t' @ [Console ''Cannot remove the main worktree.'']) \<and>
         list_all readOnly (drop (length t) (t' @ [Console ''Cannot remove the main worktree.'']))"
proof -
  from emitsD [OF emits_remove_resolveTarget assms(2)]
  obtain new where t': "t' = t @ [Exec inside_work_tree_cmd] @ new" and ro: "list_all readOnly new"
    by auto
  have run: "removeWorktreeHandler w pathOrBranch force t
           = (Halt 1, t' @ [Console ''Cannot remove the main worktree.''])"
    using assms
    by (simp add: removeWorktreeHandler_def try_catch_def bind_resolved bind_Val [where m = "remove_resolveTarget w pathOrBranch" and t = "t @ [Exec inside_work_tree_cmd]", OF assms(2)]
          remove_target_def bind_console process_exit_def)
  from t' ro have "list_all readOnly (drop (length t) (t' @ [Console ''Cannot remove the main worktree.'']))"
    by simp
  with run show ?thesis by simp
qed

lemma main_repo_exec:
  "w_exec main_repo t inside_work_tree_cmd = Succeeded ''true''"
  "w_exec main_repo t (worktree_list_cmd ''.'') = Succeeded porcelain_two"
  by (simp_all add: main_repo_def exec_git_table inside_work_tree_cmd_def worktree_list_cmd_def)

lemma main_repo_stat: "w_stat main_repo t p = Inl (FsError ''ENOENT'')"
  by (simp add: main_repo_def git_table_def no_repo_def)

lemma resolve_main:
  "remove_resolveTarget main_repo ''main'' ([] @ [Exec inside_work_tree_cmd])
     = (Val rec_main, [Exec inside_work_tree_cmd, Exec (worktree_list_cmd ''.'')])"
  by (simp add: remove_resolveTarget_def stat_def try_catch_def bind_def pure_def
        findWorktreeByBranch_def getWorktrees_run main_repo_exec main_repo_stat parse_two
        rec_main_def rec_feature_def)

theorem removeWorktreeHandler_refuses_main_witness:
  "w_exec main_repo [] inside_work_tree_cmd = Succeeded ''true'' \<and>
   remove_resolveTarget main_repo ''main'' ([] @ [Exec inside_work_tree_cmd])
     = (Val rec_main, [Exec inside_work_tree_cmd, Exec (worktree_list_cmd ''.'')]) \<and>
   isMain rec_main \<and>
   removeWorktreeHandler main_repo ''main'' True []
     = (Halt 1, [Exec inside_work_tree_cmd, Exec (worktree_list_cmd ''.''),
                 Console ''Cannot remove the main worktree.'']) \<and>
   removeWorktreeHandler main_repo ''main'' False []
     = (Halt 1, [Exec inside_work_tree_cmd, Exec (worktree_list_cmd ''.''),
                 Console ''Cannot remove the main worktree.''])"
proof -
  have m: "isMain rec_main" by (simp add: rec_main_def)
  note a = removeWorktreeHandler_refuses_main [OF main_repo_exec(1) resolve_main m, of True, THEN conjunct1]
  note b = removeWorktreeHandler_refuses_main [OF main_repo_exec(1) resolve_main m, of False, THEN conjunct1]
  from a b m resolve_main main_repo_exec(1) show ?thesis by simp
qed

lemma parse_bare: "parseWorktreeList ''worktree /srv/repo.git\<newline>bare\<newline>'' = [rec_bare]"
  by code_simp

lemma bare_layout_exec:
  "w_exec bare_layout t inside_work_tree_cmd = Succeeded ''true''"
  "w_exec bare_layout t (worktree_list_cmd ''.'') = Succeeded ''worktree /srv/repo.git\<newline>bare\<newline>''"
  by (simp_all add: bare_layout_def with_fs_def git_table_def inside_work_tree_cmd_def worktree_list_cmd_def)

lemma bare_layout_fs:
  "w_stat bare_layout t ''/srv/checkout'' = Inr Directory"
  "w_stat bare_layout t ''/srv/checkout/.git'' = Inr NotDirectory"
  "w_resolve bare_layout [''/srv/checkout''] = ''/srv/checkout''"
  "w_resolve bare_layout [''/srv/checkout'', ''.git''] = ''/srv/checkout/.git''"
  "w_realpath bare_layout t ''/srv/checkout'' = Some ''/srv/checkout''"
  "w_realpath bare_layout t ''/srv/repo.git'' = Some ''/srv/repo.git''"
  by (simp_all add: bare_layout_def with_fs_def git_table_def no_repo_def resolve_abs_def)

lemma bare_list:
  "getWorktrees bare_layout ''.'' t = (Val [rec_bare], t @ [Exec (worktree_list_cmd ''.'')])"
  by (simp add: getWorktrees_run bare_layout_exec parse_bare)

lemma bare_by_path:
  "findWorktreeByPath bare_layout ''/srv/checkout'' ''.'' t = (Val None, t @ [Exec (worktree_list_cmd ''.'')])"
  by (simp add: findWorktreeByPath_run [OF bare_list] wtRealPath_def resolvedTarget_def bare_layout_fs
        rec_bare_def)

lemma bare_by_branch:
  "findWorktreeByBranch bare_layout ''/srv/checkout'' ''.'' t = (Val None, t @ [Exec (worktree_list_cmd ''.'')])"
  by (simp add: findWorktreeByBranch_def run bare_list rec_bare_def)

text \<open>
  Claim C8. For the directory \<open>/srv/checkout\<close>, which exists, holds \<open>.git\<close> and matches
  no path of the worktree list, the cd and open handlers build the ad-hoc record, and
  \<open>removeWorktreeHandler\<close> does not: it looks for a branch of that name, finds none,
  reports that it could not find a worktree and ends the process with code 1.
\<close>

theorem remove_ignores_git_marker:
  "w_stat bare_layout [] ''/srv/checkout'' = Inr Directory \<and>
   w_stat bare_layout [] (w_resolve bare_layout [''/srv/checkout'', ''.git'']) = Inr NotDirectory \<and>
   fst (findWorktreeByPath bare_layout ''/srv/checkout'' ''.'' []) = Val None \<and>
   fst (cd_resolveTarget bare_layout ''/srv/checkout'' []) = Val (adHocRecord ''/srv/checkout'') \<and>
   fst (open_resolveTarget bare_layout ''/srv/checkout'' []) = Val (adHocRecord ''/srv/checkout'') \<and>
   removeWorktreeHandler bare_layout ''/srv/checkout'' force []
     = (Halt 1,
        [Exec inside_work_tree_cmd, Exec (worktree_list_cmd ''.''), Exec (worktree_list_cmd ''.''),
         Console (''Could not find a worktree for '' @ dq @ ''/srv/checkout'' @ dq @ ''.''),
         Console ''Use 'wt list' to see existing worktrees, or run 'wt remove' without arguments to select interactively.''])"
proof -
  have cd: "fst (cd_resolveTarget bare_layout ''/srv/checkout'' []) = Val (adHocRecord ''/srv/checkout'')"
    by (simp add: cd_resolveTarget_def run bare_layout_fs bare_by_path)
  have op: "fst (open_resolveTarget bare_layout ''/srv/checkout'' []) = Val (adHocRecord ''/srv/checkout'')"
    by (simp add: open_resolveTarget_def run bare_layout_fs bare_by_path)
  have rm: "removeWorktreeHandler bare_layout ''/srv/checkout'' force []
     = (Halt 1,
        [Exec inside_work_tree_cmd, Exec (worktree_list_cmd ''.''), Exec (worktree_list_cmd ''.''),
         Console (''Could not find a worktree for '' @ dq @ ''/srv/checkout'' @ dq @ ''.''),
         Console ''Use 'wt list' to see existing worktrees, or run 'wt remove' without arguments to select interactively.''])"
    by (simp add: removeWorktreeHandler_def remove_resolveTarget_def run bare_layout_exec
          bare_layout_fs bare_by_path bare_by_branch)
  from cd op rm show ?thesis by (simp add: bare_layout_fs bare_by_path)
qed

end
